theory Spec2Isabelle
  imports Main "HOL-Library.Word"
begin

section \<open>Solidity preliminaries\<close>

text \<open>
  Addresses are 160-bit words, \<open>bytes32\<close> and \<open>bytes4\<close> are 256-bit and 32-bit words.
  A \<open>uint256\<close> is a natural number together with the checked arithmetic of
  Solidity 0.8: SafeMath's \<open>add\<close>, \<open>sub\<close>, \<open>mul\<close> and \<open>div\<close> (OpenZeppelin 4.x, the
  version that still ships \<open>utils/math/SafeMath.sol\<close> and \<open>security/ReentrancyGuard.sol\<close>)
  are the built-in operators, which abort the call with a panic when the result
  leaves the range \<open>0 .. 2^256 - 1\<close>.

  A call either reverts, and then none of its effects survive, or returns the new
  state: a result is \<open>error + 'a\<close> and a reverted call carries no state at all.
\<close>

type_synonym address = "160 word"
type_synonym uint256 = nat
type_synonym bytes32 = "256 word"
type_synonym bytes4 = "32 word"

datatype error =
    Revert string  \<comment> \<open>a failed \<open>require\<close>, with its reason string\<close>
  | Panic nat      \<comment> \<open>0x11: arithmetic overflow or underflow, 0x12: division by zero\<close>

definition MAX_UINT256 :: nat where
  "MAX_UINT256 = 2 ^ 256 - 1"

definition add :: "uint256 \<Rightarrow> uint256 \<Rightarrow> error + uint256" where
  "add a b = (if a + b \<le> MAX_UINT256 then Inr (a + b) else Inl (Panic 17))"

definition sub :: "uint256 \<Rightarrow> uint256 \<Rightarrow> error + uint256" where
  "sub a b = (if b \<le> a then Inr (a - b) else Inl (Panic 17))"

definition mul :: "uint256 \<Rightarrow> uint256 \<Rightarrow> error + uint256" where
  "mul a b = (if a * b \<le> MAX_UINT256 then Inr (a * b) else Inl (Panic 17))"

definition div_u :: "uint256 \<Rightarrow> uint256 \<Rightarrow> error + uint256" where
  "div_u a b = (if b = 0 then Inl (Panic 18) else Inr (a div b))"

text \<open>Sequencing of fallible steps: the first failure aborts the rest.\<close>

definition bind :: "error + 'a \<Rightarrow> ('a \<Rightarrow> error + 'b) \<Rightarrow> error + 'b" where
  "bind m f = (case m of Inl e \<Rightarrow> Inl e | Inr v \<Rightarrow> f v)"

definition require :: "bool \<Rightarrow> string \<Rightarrow> (error + 'a) \<Rightarrow> error + 'a" where
  "require c msg k = (if c then k else Inl (Revert msg))"

text \<open>
  The error kinds of the specification (section 7), as a classification of the reason
  strings of the contracts' \<open>require\<close> statements.
\<close>

datatype error_kind =
    AuthorizationError | ValidationError | StateError | LiquidityError
  | InsufficientFundsError | TransferError | ArithmeticError

definition error_kind_of :: "error \<Rightarrow> error_kind" where
  "error_kind_of e = (case e of
      Panic _ \<Rightarrow> ArithmeticError
    | Revert m \<Rightarrow>
       (if m \<in> {''Ownable: caller is not the owner'', ''Not authorized'', ''Not oracle updater''}
          then AuthorizationError
        else if m \<in> {''Existing loan active'', ''No active loan'', ''Transfer not pending'',
                      ''Transfer does not exist'', ''Command already registered'',
                      ''Command not registered'', ''Command not registered or inactive'',
                      ''Command not registered or already deactivated'',
                      ''Token already supported'', ''Already authorized'',
                      ''Language already supported'', ''Language not supported''}
          then StateError
        else if m = ''Insufficient liquidity'' then LiquidityError
        else if m \<in> {''Insufficient balance'', ''Insufficient balance for repayment''}
          then InsufficientFundsError
        else if m \<in> {''ERC20: insufficient allowance'', ''ERC20: transfer amount exceeds balance'',
                      ''ERC20: transfer from the zero address'', ''ERC20: transfer to the zero address''}
          then TransferError
        else ValidationError))"

section \<open>The token: OpenZeppelin ERC20\<close>

text \<open>
  \<open>AIFiToken\<close> is an OpenZeppelin \<open>ERC20\<close>; the pool and the remittance contract reach
  a token only through \<open>balanceOf\<close>, \<open>safeTransfer\<close> and \<open>safeTransferFrom\<close>.
  Every token address holds such a ledger. \<open>_transfer\<close> and \<open>_spendAllowance\<close> are those
  of the library: the zero address neither sends nor receives, the sender's balance must
  cover the amount, and an allowance of \<open>type(uint256).max\<close> is not consumed. The credit
  \<open>_balances[to] += amount\<close> is unchecked in the library (the total supply bounds it).
  Such a token never calls back, so \<open>nonReentrant\<close> never fires and is not modelled.
\<close>

record ERC20 =
  balances :: "address \<Rightarrow> uint256"
  allowances :: "address \<Rightarrow> address \<Rightarrow> uint256"

type_synonym tokens = "address \<Rightarrow> ERC20"

definition balanceOf :: "tokens \<Rightarrow> address \<Rightarrow> address \<Rightarrow> uint256" where
  "balanceOf tk token account = balances (tk token) account"

definition transfer_internal :: "ERC20 \<Rightarrow> address \<Rightarrow> address \<Rightarrow> uint256 \<Rightarrow> error + ERC20" where
  "transfer_internal e from to amt =
     require (from \<noteq> 0) ''ERC20: transfer from the zero address''
    (require (to \<noteq> 0) ''ERC20: transfer to the zero address''
    (require (balances e from \<ge> amt) ''ERC20: transfer amount exceeds balance''
      (let b1 = (balances e)(from := balances e from - amt);
           b2 = b1(to := b1 to + amt)
       in Inr (e\<lparr>balances := b2\<rparr>))))"

definition spendAllowance :: "ERC20 \<Rightarrow> address \<Rightarrow> address \<Rightarrow> uint256 \<Rightarrow> error + ERC20" where
  "spendAllowance e holder spender amt =
     (let currentAllowance = allowances e holder spender in
      if currentAllowance \<noteq> MAX_UINT256 then
        require (currentAllowance \<ge> amt) ''ERC20: insufficient allowance''
          (Inr (e\<lparr>allowances := (allowances e)(holder := (allowances e holder)(spender := currentAllowance - amt))\<rparr>))
      else Inr e)"

text \<open>\<open>IERC20(token).safeTransfer(to, amt)\<close> called by the contract at \<open>this\<close>.\<close>

definition safeTransfer :: "tokens \<Rightarrow> address \<Rightarrow> address \<Rightarrow> address \<Rightarrow> uint256 \<Rightarrow> error + tokens" where
  "safeTransfer tk token this to amt =
     bind (transfer_internal (tk token) this to amt) (\<lambda>e. Inr (tk(token := e)))"

text \<open>\<open>IERC20(token).safeTransferFrom(from, to, amt)\<close> called by the contract at \<open>this\<close>.\<close>

definition safeTransferFrom ::
  "tokens \<Rightarrow> address \<Rightarrow> address \<Rightarrow> address \<Rightarrow> address \<Rightarrow> uint256 \<Rightarrow> error + tokens" where
  "safeTransferFrom tk token this from to amt =
     bind (spendAllowance (tk token) from this amt) (\<lambda>e1.
     bind (transfer_internal e1 from to amt) (\<lambda>e2. Inr (tk(token := e2))))"

section \<open>AIFiLendingPool\<close>

datatype RiskTier = LOW | MEDIUM | HIGH

record Loan =
  amount :: uint256
  timestamp :: uint256
  riskTier :: RiskTier
  active :: bool

record LendingPool =
  owner :: address
  supportedTokens :: "address \<Rightarrow> bool"
  interestRates :: "RiskTier \<Rightarrow> uint256"
  userDeposits :: "address \<Rightarrow> address \<Rightarrow> uint256"  \<comment> \<open>user, then token\<close>
  userLoans :: "address \<Rightarrow> address \<Rightarrow> Loan"         \<comment> \<open>borrower, then token\<close>
  totalDeposits :: "address \<Rightarrow> uint256"
  protocolFee :: uint256
  riskAssessmentOracle :: address

text \<open>Storage that was never written reads as zero: an inactive loan of amount 0 and tier \<open>LOW\<close>.\<close>

definition empty_Loan :: Loan where
  "empty_Loan = \<lparr>amount = 0, timestamp = 0, riskTier = LOW, active = False\<rparr>"

text \<open>The constructor, run by \<open>deployer\<close> (who becomes the owner).\<close>

definition AIFiLendingPool_constructor :: "address \<Rightarrow> address \<Rightarrow> LendingPool" where
  "AIFiLendingPool_constructor deployer oracle =
     \<lparr>owner = deployer,
      supportedTokens = (\<lambda>_. False),
      interestRates = (\<lambda>_. 0)(LOW := 500, MEDIUM := 1000, HIGH := 1500),
      userDeposits = (\<lambda>_ _. 0),
      userLoans = (\<lambda>_ _. empty_Loan),
      totalDeposits = (\<lambda>_. 0),
      protocolFee = 50,
      riskAssessmentOracle = oracle\<rparr>"

definition onlyOwner :: "address \<Rightarrow> address \<Rightarrow> (error + 'a) \<Rightarrow> error + 'a" where
  "onlyOwner own sender k = require (own = sender) ''Ownable: caller is not the owner'' k"

definition addSupportedToken :: "LendingPool \<Rightarrow> address \<Rightarrow> address \<Rightarrow> error + LendingPool" where
  "addSupportedToken p sender token =
     onlyOwner (owner p) sender
    (require (token \<noteq> 0) ''Invalid token address''
    (require (\<not> supportedTokens p token) ''Token already supported''
      (Inr (p\<lparr>supportedTokens := (supportedTokens p)(token := True)\<rparr>))))"

definition removeSupportedToken :: "LendingPool \<Rightarrow> address \<Rightarrow> address \<Rightarrow> error + LendingPool" where
  "removeSupportedToken p sender token =
     onlyOwner (owner p) sender
    (require (supportedTokens p token) ''Token not supported''
      (Inr (p\<lparr>supportedTokens := (supportedTokens p)(token := False)\<rparr>)))"

definition updateInterestRate :: "LendingPool \<Rightarrow> address \<Rightarrow> RiskTier \<Rightarrow> uint256 \<Rightarrow> error + LendingPool" where
  "updateInterestRate p sender tier newRate =
     onlyOwner (owner p) sender
    (require (newRate \<le> 5000) ''Rate too high''
      (Inr (p\<lparr>interestRates := (interestRates p)(tier := newRate)\<rparr>)))"

definition updateRiskOracle :: "LendingPool \<Rightarrow> address \<Rightarrow> address \<Rightarrow> error + LendingPool" where
  "updateRiskOracle p sender newOracle =
     onlyOwner (owner p) sender
    (require (newOracle \<noteq> 0) ''Invalid oracle address''
      (Inr (p\<lparr>riskAssessmentOracle := newOracle\<rparr>)))"

text \<open>
  The money-moving calls take the pool's own address \<open>this\<close>, \<open>msg.sender\<close> and, where
  the code reads it, \<open>block.timestamp\<close>; they return the pool and the token ledgers.
\<close>

definition deposit ::
  "address \<Rightarrow> LendingPool \<Rightarrow> tokens \<Rightarrow> address \<Rightarrow> address \<Rightarrow> uint256 \<Rightarrow> error + LendingPool \<times> tokens" where
  "deposit this p tk sender token amt =
     require (supportedTokens p token) ''Token not supported''
    (require (amt > 0) ''Amount must be greater than 0''
    (bind (safeTransferFrom tk token this sender this amt) (\<lambda>tk'.
     bind (add (userDeposits p sender token) amt) (\<lambda>d.
     bind (add (totalDeposits p token) amt) (\<lambda>t.
       Inr (p\<lparr>userDeposits := (userDeposits p)(sender := (userDeposits p sender)(token := d)),
              totalDeposits := (totalDeposits p)(token := t)\<rparr>, tk'))))))"

definition withdraw ::
  "address \<Rightarrow> LendingPool \<Rightarrow> tokens \<Rightarrow> address \<Rightarrow> address \<Rightarrow> uint256 \<Rightarrow> error + LendingPool \<times> tokens" where
  "withdraw this p tk sender token amt =
     require (amt > 0) ''Amount must be greater than 0''
    (require (userDeposits p sender token \<ge> amt) ''Insufficient balance''
    (bind (sub (userDeposits p sender token) amt) (\<lambda>d.
     bind (sub (totalDeposits p token) amt) (\<lambda>t.
     bind (safeTransfer tk token this sender amt) (\<lambda>tk'.
       Inr (p\<lparr>userDeposits := (userDeposits p)(sender := (userDeposits p sender)(token := d)),
              totalDeposits := (totalDeposits p)(token := t)\<rparr>, tk'))))))"

text \<open>The mock of the oracle lookup: every borrower is \<open>MEDIUM\<close>.\<close>

definition getRiskTierFromOracle :: "address \<Rightarrow> RiskTier" where
  "getRiskTierFromOracle user = MEDIUM"

definition borrow ::
  "address \<Rightarrow> uint256 \<Rightarrow> LendingPool \<Rightarrow> tokens \<Rightarrow> address \<Rightarrow> address \<Rightarrow> uint256 \<Rightarrow> error + LendingPool \<times> tokens" where
  "borrow this now p tk sender token amt =
     require (supportedTokens p token) ''Token not supported''
    (require (amt > 0) ''Amount must be greater than 0''
    (require (totalDeposits p token \<ge> amt) ''Insufficient liquidity''
    (require (\<not> active (userLoans p sender token)) ''Existing loan active''
    (let tier = getRiskTierFromOracle sender;
         loan = \<lparr>amount = amt, timestamp = now, riskTier = tier, active = True\<rparr>
     in bind (sub (totalDeposits p token) amt) (\<lambda>t.
        bind (safeTransfer tk token this sender amt) (\<lambda>tk'.
          Inr (p\<lparr>userLoans := (userLoans p)(sender := (userLoans p sender)(token := loan)),
                 totalDeposits := (totalDeposits p)(token := t)\<rparr>, tk')))))))"

definition calculateInterest :: "LendingPool \<Rightarrow> uint256 \<Rightarrow> uint256 \<Rightarrow> RiskTier \<Rightarrow> error + uint256" where
  "calculateInterest p amt timeElapsed tier =
     (let annualRate = interestRates p tier in
      bind (mul annualRate (10 ^ 18)) (\<lambda>x1.
      bind (div_u x1 31536000) (\<lambda>x2.
      bind (div_u x2 10000) (\<lambda>perSecondRate.
      bind (mul amt perSecondRate) (\<lambda>y1.
      bind (mul y1 timeElapsed) (\<lambda>y2.
      div_u y2 (10 ^ 18)))))))"

definition repay ::
  "address \<Rightarrow> uint256 \<Rightarrow> LendingPool \<Rightarrow> tokens \<Rightarrow> address \<Rightarrow> address \<Rightarrow> error + LendingPool \<times> tokens" where
  "repay this now p tk sender token =
     (let loan = userLoans p sender token in
      require (active loan) ''No active loan''
     (bind (sub now (timestamp loan)) (\<lambda>timeElapsed.
      bind (calculateInterest p (amount loan) timeElapsed (riskTier loan)) (\<lambda>interest.
      bind (add (amount loan) interest) (\<lambda>totalRepayment.
      require (balanceOf tk token sender \<ge> totalRepayment) ''Insufficient balance for repayment''
     (bind (safeTransferFrom tk token this sender this totalRepayment) (\<lambda>tk'.
      bind (add (totalDeposits p token) totalRepayment) (\<lambda>t.
        Inr (p\<lparr>totalDeposits := (totalDeposits p)(token := t),
               userLoans := (userLoans p)(sender := (userLoans p sender)(token := loan\<lparr>active := False\<rparr>))\<rparr>,
             tk')))))))))"

text \<open>
  A transaction to the pool: \<open>msg.sender\<close>, \<open>block.timestamp\<close> and the call. A reverted
  transaction leaves the pool and the token ledgers as they were.
\<close>

datatype lp_op =
    Deposit address uint256
  | Withdraw address uint256
  | Borrow address uint256
  | Repay address
  | AddSupportedToken address
  | RemoveSupportedToken address
  | UpdateInterestRate RiskTier uint256
  | UpdateRiskOracle address

type_synonym lp_tx = "address \<times> uint256 \<times> lp_op"

fun lp_call :: "address \<Rightarrow> LendingPool \<times> tokens \<Rightarrow> lp_tx \<Rightarrow> error + LendingPool \<times> tokens" where
  "lp_call this (p, tk) (sender, now, Deposit token amt) = deposit this p tk sender token amt"
| "lp_call this (p, tk) (sender, now, Withdraw token amt) = withdraw this p tk sender token amt"
| "lp_call this (p, tk) (sender, now, Borrow token amt) = borrow this now p tk sender token amt"
| "lp_call this (p, tk) (sender, now, Repay token) = repay this now p tk sender token"
| "lp_call this (p, tk) (sender, now, AddSupportedToken token) =
     bind (addSupportedToken p sender token) (\<lambda>p'. Inr (p', tk))"
| "lp_call this (p, tk) (sender, now, RemoveSupportedToken token) =
     bind (removeSupportedToken p sender token) (\<lambda>p'. Inr (p', tk))"
| "lp_call this (p, tk) (sender, now, UpdateInterestRate tier rate) =
     bind (updateInterestRate p sender tier rate) (\<lambda>p'. Inr (p', tk))"
| "lp_call this (p, tk) (sender, now, UpdateRiskOracle oracle) =
     bind (updateRiskOracle p sender oracle) (\<lambda>p'. Inr (p', tk))"

definition lp_exec :: "address \<Rightarrow> LendingPool \<times> tokens \<Rightarrow> lp_tx \<Rightarrow> LendingPool \<times> tokens" where
  "lp_exec this w tx = (case lp_call this w tx of Inl _ \<Rightarrow> w | Inr w' \<Rightarrow> w')"

definition lp_run :: "address \<Rightarrow> LendingPool \<times> tokens \<Rightarrow> lp_tx list \<Rightarrow> LendingPool \<times> tokens" where
  "lp_run this w txs = foldl (lp_exec this) w txs"

fun is_loan_call :: "lp_tx \<Rightarrow> bool" where
  "is_loan_call (_, _, Borrow _ _) = True"
| "is_loan_call (_, _, Repay _) = True"
| "is_loan_call _ = False"

fun is_repay :: "lp_tx \<Rightarrow> bool" where
  "is_repay (_, _, Repay _) = True"
| "is_repay _ = False"

text \<open>
  The two sides of the conservation property, per token: the sum of the deposit balances
  of all accounts, and the principal that is out on active loans.
\<close>

definition sum_balances :: "LendingPool \<Rightarrow> address \<Rightarrow> nat" where
  "sum_balances p token = (\<Sum>u\<in>UNIV. userDeposits p u token)"

definition outstanding :: "LendingPool \<Rightarrow> address \<Rightarrow> nat" where
  "outstanding p token =
     (\<Sum>u\<in>UNIV. if active (userLoans p u token) then amount (userLoans p u token) else 0)"

text \<open>
  The interest that a transaction pays into the pool, per token: what \<open>calculateInterest\<close>
  gives for the loan, where the transaction is a \<open>repay\<close> that goes through; and the
  interest paid in by a sequence of transactions, each taken in the state it meets.
\<close>

fun interest_of :: "address \<Rightarrow> LendingPool \<times> tokens \<Rightarrow> lp_tx \<Rightarrow> address \<Rightarrow> nat" where
  "interest_of this (p, tk) (sender, now, Repay token) t =
     (if token = t then
        (case repay this now p tk sender token of
           Inl _ \<Rightarrow> 0
         | Inr _ \<Rightarrow>
            (case calculateInterest p (amount (userLoans p sender token))
                    (now - timestamp (userLoans p sender token)) (riskTier (userLoans p sender token)) of
               Inl _ \<Rightarrow> 0
             | Inr i \<Rightarrow> i))
      else 0)"
| "interest_of this w tx t = 0"

fun interest_collected :: "address \<Rightarrow> LendingPool \<times> tokens \<Rightarrow> lp_tx list \<Rightarrow> address \<Rightarrow> nat" where
  "interest_collected this w [] t = 0"
| "interest_collected this w (tx # txs) t =
     interest_of this w tx t + interest_collected this (lp_exec this w tx) txs t"

section \<open>AIFiRemittance\<close>

datatype TransferStatus = PENDING | COMPLETED | CANCELLED

text \<open>
  The fields \<open>id\<close>, \<open>sender\<close>, \<open>amount\<close> and \<open>timestamp\<close> of the struct carry the prefix
  \<open>tr_\<close> here, and the contract's \<open>owner\<close> and \<open>supportedTokens\<close> the prefix \<open>rm_\<close>.
\<close>

record Transfer =
  tr_id :: uint256
  tr_sender :: address
  recipientId :: string
  tokenAddress :: address
  tr_amount :: uint256
  fee :: uint256
  originCountry :: string
  destinationCountry :: string
  tr_timestamp :: uint256
  status :: TransferStatus

record Remittance =
  rm_owner :: address
  rm_supportedTokens :: "address \<Rightarrow> bool"
  corridorFees :: "string \<Rightarrow> string \<Rightarrow> uint256"
  defaultFee :: uint256
  minTransferAmount :: uint256
  maxTransferAmount :: uint256
  transferCounter :: uint256
  transfers :: "uint256 \<Rightarrow> Transfer"
  userTransfers :: "address \<Rightarrow> uint256 list"
  treasury :: address

text \<open>A transfer slot that was never written: all fields zero, so its status reads \<open>PENDING\<close>.\<close>

definition empty_Transfer :: Transfer where
  "empty_Transfer =
     \<lparr>tr_id = 0, tr_sender = 0, recipientId = [], tokenAddress = 0, tr_amount = 0, fee = 0,
      originCountry = [], destinationCountry = [], tr_timestamp = 0, status = PENDING\<rparr>"

definition AIFiRemittance_constructor :: "address \<Rightarrow> address \<Rightarrow> error + Remittance" where
  "AIFiRemittance_constructor deployer treasury0 =
     require (treasury0 \<noteq> 0) ''Invalid treasury address''
      (Inr \<lparr>rm_owner = deployer,
            rm_supportedTokens = (\<lambda>_. False),
            corridorFees = (\<lambda>_ _. 0),
            defaultFee = 50,
            minTransferAmount = 10 * 10 ^ 18,
            maxTransferAmount = 10000 * 10 ^ 18,
            transferCounter = 1,
            transfers = (\<lambda>_. empty_Transfer),
            userTransfers = (\<lambda>_. []),
            treasury = treasury0\<rparr>)"

definition rm_addSupportedToken :: "Remittance \<Rightarrow> address \<Rightarrow> address \<Rightarrow> error + Remittance" where
  "rm_addSupportedToken r sender token =
     onlyOwner (rm_owner r) sender
    (require (token \<noteq> 0) ''Invalid token address''
    (require (\<not> rm_supportedTokens r token) ''Token already supported''
      (Inr (r\<lparr>rm_supportedTokens := (rm_supportedTokens r)(token := True)\<rparr>))))"

definition rm_removeSupportedToken :: "Remittance \<Rightarrow> address \<Rightarrow> address \<Rightarrow> error + Remittance" where
  "rm_removeSupportedToken r sender token =
     onlyOwner (rm_owner r) sender
    (require (rm_supportedTokens r token) ''Token not supported''
      (Inr (r\<lparr>rm_supportedTokens := (rm_supportedTokens r)(token := False)\<rparr>)))"

definition updateCorridorFee ::
  "Remittance \<Rightarrow> address \<Rightarrow> string \<Rightarrow> string \<Rightarrow> uint256 \<Rightarrow> error + Remittance" where
  "updateCorridorFee r sender origin destination newFee =
     onlyOwner (rm_owner r) sender
    (require (length origin > 0) ''Invalid origin''
    (require (length destination > 0) ''Invalid destination''
    (require (newFee \<le> 500) ''Fee too high''
      (Inr (r\<lparr>corridorFees :=
                (corridorFees r)(origin := (corridorFees r origin)(destination := newFee))\<rparr>)))))"

definition updateDefaultFee :: "Remittance \<Rightarrow> address \<Rightarrow> uint256 \<Rightarrow> error + Remittance" where
  "updateDefaultFee r sender newFee =
     onlyOwner (rm_owner r) sender
    (require (newFee \<le> 500) ''Fee too high''
      (Inr (r\<lparr>defaultFee := newFee\<rparr>)))"

definition updateTransferLimits :: "Remittance \<Rightarrow> address \<Rightarrow> uint256 \<Rightarrow> uint256 \<Rightarrow> error + Remittance" where
  "updateTransferLimits r sender minAmount maxAmount =
     onlyOwner (rm_owner r) sender
    (require (minAmount < maxAmount) ''Invalid limits''
      (Inr (r\<lparr>minTransferAmount := minAmount, maxTransferAmount := maxAmount\<rparr>)))"

definition updateTreasury :: "Remittance \<Rightarrow> address \<Rightarrow> address \<Rightarrow> error + Remittance" where
  "updateTreasury r sender newTreasury =
     onlyOwner (rm_owner r) sender
    (require (newTreasury \<noteq> 0) ''Invalid treasury address''
      (Inr (r\<lparr>treasury := newTreasury\<rparr>)))"

definition calculateFee :: "Remittance \<Rightarrow> string \<Rightarrow> string \<Rightarrow> uint256 \<Rightarrow> error + uint256" where
  "calculateFee r origin destination amt =
     (let feeRate0 = corridorFees r origin destination;
          feeRate = (if feeRate0 = 0 then defaultFee r else feeRate0)
      in bind (mul amt feeRate) (\<lambda>x. div_u x 10000))"

definition initiateTransfer ::
  "address \<Rightarrow> uint256 \<Rightarrow> Remittance \<Rightarrow> tokens \<Rightarrow> address \<Rightarrow> address \<Rightarrow> uint256 \<Rightarrow> string \<Rightarrow> string \<Rightarrow> string
     \<Rightarrow> error + uint256 \<times> Remittance \<times> tokens" where
  "initiateTransfer this now r tk sender token amt recipient origin destination =
     require (rm_supportedTokens r token) ''Token not supported''
    (require (amt \<ge> minTransferAmount r) ''Amount below minimum''
    (require (amt \<le> maxTransferAmount r) ''Amount above maximum''
    (require (length recipient > 0) ''Invalid recipient ID''
    (require (length origin > 0) ''Invalid origin country''
    (require (length destination > 0) ''Invalid destination country''
    (bind (calculateFee r origin destination amt) (\<lambda>fee0.
     bind (add amt fee0) (\<lambda>totalAmount.
     require (balanceOf tk token sender \<ge> totalAmount) ''Insufficient balance''
    (let transferId = transferCounter r in
     bind (add (transferCounter r) 1) (\<lambda>counter'.
     let t = \<lparr>tr_id = transferId, tr_sender = sender, recipientId = recipient,
              tokenAddress = token, tr_amount = amt, fee = fee0, originCountry = origin,
              destinationCountry = destination, tr_timestamp = now, status = PENDING\<rparr>;
         r' = r\<lparr>transferCounter := counter',
                transfers := (transfers r)(transferId := t),
                userTransfers := (userTransfers r)(sender := userTransfers r sender @ [transferId])\<rparr>
     in bind (safeTransferFrom tk token this sender this totalAmount) (\<lambda>tk1.
        bind (safeTransfer tk1 token this (treasury r) fee0) (\<lambda>tk2.
          Inr (transferId, r', tk2)))))))))))))"

definition completeTransfer :: "Remittance \<Rightarrow> address \<Rightarrow> uint256 \<Rightarrow> error + Remittance" where
  "completeTransfer r sender transferId =
     onlyOwner (rm_owner r) sender
    (let t = transfers r transferId in
     require (tr_id t = transferId) ''Transfer does not exist''
    (require (status t = PENDING) ''Transfer not pending''
      (Inr (r\<lparr>transfers := (transfers r)(transferId := t\<lparr>status := COMPLETED\<rparr>)\<rparr>))))"

definition cancelTransfer ::
  "address \<Rightarrow> Remittance \<Rightarrow> tokens \<Rightarrow> address \<Rightarrow> uint256 \<Rightarrow> error + Remittance \<times> tokens" where
  "cancelTransfer this r tk sender transferId =
     (let t = transfers r transferId in
      require (tr_id t = transferId) ''Transfer does not exist''
     (require (status t = PENDING) ''Transfer not pending''
     (require (sender = tr_sender t \<or> sender = rm_owner r) ''Not authorized''
     (bind (safeTransfer tk (tokenAddress t) this (tr_sender t) (tr_amount t)) (\<lambda>tk'.
        Inr (r\<lparr>transfers := (transfers r)(transferId := t\<lparr>status := CANCELLED\<rparr>)\<rparr>, tk'))))))"

definition getTransfer :: "Remittance \<Rightarrow> uint256 \<Rightarrow> error + Transfer" where
  "getTransfer r transferId =
     (let t = transfers r transferId in
      require (tr_id t = transferId) ''Transfer does not exist'' (Inr t))"

definition getUserTransfers :: "Remittance \<Rightarrow> address \<Rightarrow> uint256 list" where
  "getUserTransfers r user = userTransfers r user"

datatype rm_op =
    InitiateTransfer address uint256 string string string
  | CompleteTransfer uint256
  | CancelTransfer uint256
  | RmAddSupportedToken address
  | RmRemoveSupportedToken address
  | UpdateCorridorFee string string uint256
  | UpdateDefaultFee uint256
  | UpdateTransferLimits uint256 uint256
  | UpdateTreasury address

type_synonym rm_tx = "address \<times> uint256 \<times> rm_op"

fun rm_call :: "address \<Rightarrow> Remittance \<times> tokens \<Rightarrow> rm_tx \<Rightarrow> error + Remittance \<times> tokens" where
  "rm_call this (r, tk) (sender, now, InitiateTransfer token amt recipient origin destination) =
     bind (initiateTransfer this now r tk sender token amt recipient origin destination)
       (\<lambda>(_, r', tk'). Inr (r', tk'))"
| "rm_call this (r, tk) (sender, now, CompleteTransfer i) =
     bind (completeTransfer r sender i) (\<lambda>r'. Inr (r', tk))"
| "rm_call this (r, tk) (sender, now, CancelTransfer i) = cancelTransfer this r tk sender i"
| "rm_call this (r, tk) (sender, now, RmAddSupportedToken token) =
     bind (rm_addSupportedToken r sender token) (\<lambda>r'. Inr (r', tk))"
| "rm_call this (r, tk) (sender, now, RmRemoveSupportedToken token) =
     bind (rm_removeSupportedToken r sender token) (\<lambda>r'. Inr (r', tk))"
| "rm_call this (r, tk) (sender, now, UpdateCorridorFee origin destination f) =
     bind (updateCorridorFee r sender origin destination f) (\<lambda>r'. Inr (r', tk))"
| "rm_call this (r, tk) (sender, now, UpdateDefaultFee f) =
     bind (updateDefaultFee r sender f) (\<lambda>r'. Inr (r', tk))"
| "rm_call this (r, tk) (sender, now, UpdateTransferLimits lo hi) =
     bind (updateTransferLimits r sender lo hi) (\<lambda>r'. Inr (r', tk))"
| "rm_call this (r, tk) (sender, now, UpdateTreasury a) =
     bind (updateTreasury r sender a) (\<lambda>r'. Inr (r', tk))"

definition rm_exec :: "address \<Rightarrow> Remittance \<times> tokens \<Rightarrow> rm_tx \<Rightarrow> Remittance \<times> tokens" where
  "rm_exec this w tx = (case rm_call this w tx of Inl _ \<Rightarrow> w | Inr w' \<Rightarrow> w')"

definition rm_run :: "address \<Rightarrow> Remittance \<times> tokens \<Rightarrow> rm_tx list \<Rightarrow> Remittance \<times> tokens" where
  "rm_run this w txs = foldl (rm_exec this) w txs"

section \<open>AIFiVoiceInterface\<close>

text \<open>The field \<open>active\<close> of \<open>ActionInfo\<close> is \<open>action_active\<close> here, the owner \<open>vi_owner\<close>.\<close>

record ActionInfo =
  targetContract :: address
  functionSelector :: bytes4
  description :: string
  action_active :: bool

record VoiceInterface =
  vi_owner :: address
  actions :: "bytes32 \<Rightarrow> ActionInfo"
  supportedLanguages :: "string \<Rightarrow> bool"
  authorizedProcessors :: "address \<Rightarrow> bool"

definition empty_ActionInfo :: ActionInfo where
  "empty_ActionInfo =
     \<lparr>targetContract = 0, functionSelector = 0, description = [], action_active = False\<rparr>"

definition AIFiVoiceInterface_constructor :: "address \<Rightarrow> VoiceInterface" where
  "AIFiVoiceInterface_constructor deployer =
     \<lparr>vi_owner = deployer,
      actions = (\<lambda>_. empty_ActionInfo),
      supportedLanguages = (\<lambda>_. False)(''en'' := True, ''es'' := True, ''pt'' := True),
      authorizedProcessors = (\<lambda>_. False)\<rparr>"

definition registerAction ::
  "VoiceInterface \<Rightarrow> address \<Rightarrow> bytes32 \<Rightarrow> address \<Rightarrow> bytes4 \<Rightarrow> string \<Rightarrow> error + VoiceInterface" where
  "registerAction v sender commandHash target selector descr =
     onlyOwner (vi_owner v) sender
    (require (commandHash \<noteq> 0) ''Invalid command hash''
    (require (target \<noteq> 0) ''Invalid target contract''
    (require (selector \<noteq> 0) ''Invalid function selector''
    (require (length descr > 0) ''Invalid description''
    (require (\<not> action_active (actions v commandHash)) ''Command already registered''
      (Inr (v\<lparr>actions := (actions v)(commandHash :=
              \<lparr>targetContract = target, functionSelector = selector,
               description = descr, action_active = True\<rparr>)\<rparr>)))))))"

definition updateAction ::
  "VoiceInterface \<Rightarrow> address \<Rightarrow> bytes32 \<Rightarrow> address \<Rightarrow> bytes4 \<Rightarrow> string \<Rightarrow> error + VoiceInterface" where
  "updateAction v sender commandHash target selector descr =
     onlyOwner (vi_owner v) sender
    (require (action_active (actions v commandHash)) ''Command not registered''
    (require (target \<noteq> 0) ''Invalid target contract''
    (require (selector \<noteq> 0) ''Invalid function selector''
    (require (length descr > 0) ''Invalid description''
      (Inr (v\<lparr>actions := (actions v)(commandHash :=
              (actions v commandHash)\<lparr>targetContract := target, functionSelector := selector,
                                       description := descr\<rparr>)\<rparr>))))))"

definition deactivateAction :: "VoiceInterface \<Rightarrow> address \<Rightarrow> bytes32 \<Rightarrow> error + VoiceInterface" where
  "deactivateAction v sender commandHash =
     onlyOwner (vi_owner v) sender
    (require (action_active (actions v commandHash)) ''Command not registered or already deactivated''
      (Inr (v\<lparr>actions := (actions v)(commandHash :=
              (actions v commandHash)\<lparr>action_active := False\<rparr>)\<rparr>)))"

definition getAction :: "VoiceInterface \<Rightarrow> bytes32 \<Rightarrow> ActionInfo" where
  "getAction v commandHash = actions v commandHash"

definition processCommand :: "VoiceInterface \<Rightarrow> address \<Rightarrow> bytes32 \<Rightarrow> error + address \<times> bytes4" where
  "processCommand v sender commandHash =
     require (authorizedProcessors v sender \<or> sender = vi_owner v) ''Not authorized''
    (let actionInfo = actions v commandHash in
     require (action_active actionInfo) ''Command not registered or inactive''
      (Inr (targetContract actionInfo, functionSelector actionInfo)))"

text \<open>
  \<open>keccak256(abi.encodePacked(_language, ":", _command))\<close>: the packed encoding of strings
  is their concatenation; the hash function of the EVM is a parameter.
\<close>

definition generateCommandHash :: "(string \<Rightarrow> bytes32) \<Rightarrow> string \<Rightarrow> string \<Rightarrow> bytes32" where
  "generateCommandHash keccak256 language command = keccak256 (language @ '':'' @ command)"

text \<open>What a transaction leaves behind: the new state, or the old one when it reverted.\<close>

definition after :: "'s \<Rightarrow> error + 's \<Rightarrow> 's" where
  "after s res = (case res of Inl _ \<Rightarrow> s | Inr s' \<Rightarrow> s')"

section \<open>AIRiskOracle\<close>

text \<open>
  The oracle declares the same enumeration \<open>RiskTier\<close> as the pool; \<open>uint8(tier)\<close> is
  its position, and \<open>RiskTier(0)\<close> is \<open>LOW\<close>, which is also what a slot of
  \<open>userRiskTiers\<close> reads before it is written.
\<close>

fun uint8_of_RiskTier :: "RiskTier \<Rightarrow> nat" where
  "uint8_of_RiskTier LOW = 0"
| "uint8_of_RiskTier MEDIUM = 1"
| "uint8_of_RiskTier HIGH = 2"

record RiskOracle =
  ro_owner :: address
  userRiskTiers :: "address \<Rightarrow> RiskTier"
  authorizedCallers :: "address \<Rightarrow> bool"
  aiOracleUpdater :: address

definition AIRiskOracle_constructor :: "address \<Rightarrow> address \<Rightarrow> error + RiskOracle" where
  "AIRiskOracle_constructor deployer updater =
     require (updater \<noteq> 0) ''Invalid oracle updater address''
      (Inr \<lparr>ro_owner = deployer, userRiskTiers = (\<lambda>_. LOW),
            authorizedCallers = (\<lambda>_. False), aiOracleUpdater = updater\<rparr>)"

definition onlyAuthorized :: "RiskOracle \<Rightarrow> address \<Rightarrow> (error + 'a) \<Rightarrow> error + 'a" where
  "onlyAuthorized ro sender k =
     require (authorizedCallers ro sender \<or> sender = ro_owner ro) ''Not authorized'' k"

definition onlyOracleUpdater :: "RiskOracle \<Rightarrow> address \<Rightarrow> (error + 'a) \<Rightarrow> error + 'a" where
  "onlyOracleUpdater ro sender k = require (sender = aiOracleUpdater ro) ''Not oracle updater'' k"

definition setAIOracleUpdater :: "RiskOracle \<Rightarrow> address \<Rightarrow> address \<Rightarrow> error + RiskOracle" where
  "setAIOracleUpdater ro sender newUpdater =
     onlyOwner (ro_owner ro) sender
    (require (newUpdater \<noteq> 0) ''Invalid oracle updater address''
      (Inr (ro\<lparr>aiOracleUpdater := newUpdater\<rparr>)))"

definition authorizeCaller :: "RiskOracle \<Rightarrow> address \<Rightarrow> address \<Rightarrow> error + RiskOracle" where
  "authorizeCaller ro sender caller =
     onlyOwner (ro_owner ro) sender
    (require (caller \<noteq> 0) ''Invalid caller address''
    (require (\<not> authorizedCallers ro caller) ''Already authorized''
      (Inr (ro\<lparr>authorizedCallers := (authorizedCallers ro)(caller := True)\<rparr>))))"

definition revokeCaller :: "RiskOracle \<Rightarrow> address \<Rightarrow> address \<Rightarrow> error + RiskOracle" where
  "revokeCaller ro sender caller =
     onlyOwner (ro_owner ro) sender
    (require (authorizedCallers ro caller) ''Not authorized''
      (Inr (ro\<lparr>authorizedCallers := (authorizedCallers ro)(caller := False)\<rparr>)))"

definition updateRiskTier :: "RiskOracle \<Rightarrow> address \<Rightarrow> address \<Rightarrow> RiskTier \<Rightarrow> error + RiskOracle" where
  "updateRiskTier ro sender user tier =
     onlyOracleUpdater ro sender
    (require (user \<noteq> 0) ''Invalid user address''
      (Inr (ro\<lparr>userRiskTiers := (userRiskTiers ro)(user := tier)\<rparr>)))"

text \<open>The loop of \<open>batchUpdateRiskTiers\<close>, over the two arrays in step.\<close>

fun batchLoop :: "RiskOracle \<Rightarrow> address list \<Rightarrow> RiskTier list \<Rightarrow> error + RiskOracle" where
  "batchLoop ro (u # us) (t # ts) =
     require (u \<noteq> 0) ''Invalid user address''
       (batchLoop (ro\<lparr>userRiskTiers := (userRiskTiers ro)(u := t)\<rparr>) us ts)"
| "batchLoop ro _ _ = Inr ro"

definition batchUpdateRiskTiers ::
  "RiskOracle \<Rightarrow> address \<Rightarrow> address list \<Rightarrow> RiskTier list \<Rightarrow> error + RiskOracle" where
  "batchUpdateRiskTiers ro sender users tiers =
     onlyOracleUpdater ro sender
    (require (length users = length tiers) ''Arrays length mismatch''
      (batchLoop ro users tiers))"

definition getRiskTier :: "RiskOracle \<Rightarrow> address \<Rightarrow> address \<Rightarrow> error + nat" where
  "getRiskTier ro sender user =
     onlyAuthorized ro sender
      (if user = 0 \<or> userRiskTiers ro user = LOW
       then Inr (uint8_of_RiskTier MEDIUM)
       else Inr (uint8_of_RiskTier (userRiskTiers ro user)))"

definition checkRiskTierPublic :: "RiskOracle \<Rightarrow> address \<Rightarrow> string" where
  "checkRiskTierPublic ro user =
     (if user = 0 \<or> userRiskTiers ro user = LOW then ''MEDIUM''
      else let tier = userRiskTiers ro user in
        if tier = LOW then ''LOW''
        else if tier = MEDIUM then ''MEDIUM''
        else if tier = HIGH then ''HIGH''
        else ''UNKNOWN'')"

section \<open>Scenarios\<close>

text \<open>
  The concrete world of the scenarios: the pool lives at address 100, its owner is 9, the
  token X is at address 7 and the account A is 1. A holds 1039 units of X and has approved
  the pool for 1439 of them; nobody else holds anything.
\<close>

definition scenA_tokens :: tokens where
  "scenA_tokens = (\<lambda>_. \<lparr>balances = (\<lambda>_. 0), allowances = (\<lambda>_ _. 0)\<rparr>)
     (7 := \<lparr>balances = (\<lambda>_. 0)(1 := 1039), allowances = (\<lambda>_ _. 0)(1 := (\<lambda>_. 0)(100 := 1439))\<rparr>)"

definition deposit_borrow_txs :: "lp_tx list" where
  "deposit_borrow_txs = [(9, 0, AddSupportedToken 7), (1, 0, Deposit 7 1000), (1, 5000, Borrow 7 400)]"

definition deposit_withdraw_txs :: "lp_tx list" where
  "deposit_withdraw_txs = [(9, 0, AddSupportedToken 7), (1, 0, Deposit 7 1000), (1, 10, Withdraw 7 300)]"

definition deposit_borrow_repay_txs :: "lp_tx list" where
  "deposit_borrow_repay_txs =
     [(9, 0, AddSupportedToken 7), (1, 0, Deposit 7 1000), (1, 5000, Borrow 7 400),
      (1, 5000 + 31536000, Repay 7)]"

text \<open>What a loan record contributes to the principal that is out on loan.\<close>

definition principal :: "Loan \<Rightarrow> nat" where
  "principal l = (if active l then amount l else 0)"


text \<open>
  Scenario B: the remittance contract lives at address 200, its owner is 9 and its treasury
  5; the sender 1 holds 2000 tokens (of 18 decimals) of the token at 7 and has approved the
  contract for them. The transfer limits are the constructor's, 10 to 10000 tokens.
\<close>

definition scenB_tokens :: tokens where
  "scenB_tokens = (\<lambda>_. \<lparr>balances = (\<lambda>_. 0), allowances = (\<lambda>_ _. 0)\<rparr>)
     (7 := \<lparr>balances = (\<lambda>_. 0)(1 := 2000 * 10 ^ 18),
            allowances = (\<lambda>_ _. 0)(1 := (\<lambda>_. 0)(200 := 2000 * 10 ^ 18))\<rparr>)"

definition scenB_initiate_txs :: "rm_tx list" where
  "scenB_initiate_txs =
     [(9, 0, RmAddSupportedToken 7), (9, 0, UpdateCorridorFee ''US'' ''MX'' 80),
      (1, 1000, InitiateTransfer 7 (1000 * 10 ^ 18) ''bob'' ''US'' ''MX'')]"

definition scenB_cancel_txs :: "rm_tx list" where
  "scenB_cancel_txs =
     [(9, 0, RmAddSupportedToken 7), (9, 0, UpdateCorridorFee ''US'' ''MX'' 80),
      (1, 1000, InitiateTransfer 7 (1000 * 10 ^ 18) ''bob'' ''US'' ''MX''),
      (1, 2000, CancelTransfer 1)]"

text \<open>
  What the transfer table looks like in every state the contract can reach: the counter is
  at least 1, the slots from the counter on were never written, and a transfer that has
  left \<open>PENDING\<close> carries its own id.
\<close>

definition rm_inv :: "Remittance \<Rightarrow> bool" where
  "rm_inv r \<longleftrightarrow> 1 \<le> transferCounter r
     \<and> (\<forall>j\<ge>transferCounter r. transfers r j = empty_Transfer)
     \<and> (\<forall>j. status (transfers r j) \<noteq> PENDING \<longrightarrow> tr_id (transfers r j) = j)"

text \<open>
  The principal that the pending transfers of a token hold in escrow, and the invariant that
  the contract's balance covers it.
\<close>

definition held :: "address \<Rightarrow> Transfer \<Rightarrow> nat" where
  "held t T = (if status T = PENDING \<and> tokenAddress T = t then tr_amount T else 0)"

definition escrowed :: "Remittance \<Rightarrow> address \<Rightarrow> nat" where
  "escrowed r t = (\<Sum>i<transferCounter r. held t (transfers r i))"

definition rm_escrow :: "address \<Rightarrow> Remittance \<times> tokens \<Rightarrow> bool" where
  "rm_escrow this w \<longleftrightarrow> rm_inv (fst w)
     \<and> (\<forall>j. 1 \<le> j \<and> j < transferCounter (fst w) \<longrightarrow>
            tr_id (transfers (fst w) j) = j \<and> tr_sender (transfers (fst w) j) \<noteq> 0
          \<and> tr_sender (transfers (fst w) j) \<noteq> this)
     \<and> (\<forall>t. escrowed (fst w) t \<le> balances (snd w t) this)"


section \<open>Fees of the remittance contract\<close>

lemma calculateFee_eq:
  "calculateFee r origin destination amt =
     (let rate = (if corridorFees r origin destination = 0 then defaultFee r
                  else corridorFees r origin destination)
      in if amt * rate \<le> MAX_UINT256 then Inr (amt * rate div 10000) else Inl (Panic 17))"
  by (simp add: calculateFee_def bind_def mul_def div_u_def Let_def)

lemma remittance_deploy:
  "AIFiRemittance_constructor 9 5 = Inr r0 \<Longrightarrow> updateCorridorFee r0 9 ''US'' ''MX'' 80 = Inr r1 \<Longrightarrow>
     corridorFees r1 ''US'' ''MX'' = 80 \<and> defaultFee r1 = 50 \<and> corridorFees r1 ''US'' ''CA'' = 0"
  by (auto simp add: AIFiRemittance_constructor_def updateCorridorFee_def onlyOwner_def require_def)

text \<open>
  Claim C8. \<open>calculateFee\<close> (the spec's \<open>quoteFee\<close>) reads nothing but the corridor's stored
  rate and the default rate, so two states that agree on them give the same answer; the
  fee of the amount 0 is 0 on every corridor; with a non-zero rate stored for the corridor
  the fee is \<open>amount * rate div 10000\<close> at that rate, and otherwise at the default rate.
  The call returns exactly when the product \<open>amount * rate\<close> fits a \<open>uint256\<close>.
\<close>

theorem calculateFee_pure:
  "(corridorFees r origin destination = corridorFees r' origin destination \<and> defaultFee r = defaultFee r'
      \<longrightarrow> calculateFee r origin destination amt = calculateFee r' origin destination amt)
   \<and> calculateFee r origin destination 0 = Inr 0
   \<and> (corridorFees r origin destination \<noteq> 0 \<and> amt * corridorFees r origin destination \<le> MAX_UINT256
      \<longrightarrow> calculateFee r origin destination amt = Inr (amt * corridorFees r origin destination div 10000))
   \<and> (corridorFees r origin destination = 0 \<and> amt * defaultFee r \<le> MAX_UINT256
      \<longrightarrow> calculateFee r origin destination amt = Inr (amt * defaultFee r div 10000))
   \<and> ((\<exists>e. calculateFee r origin destination amt = Inl e) \<longleftrightarrow>
        amt * (if corridorFees r origin destination = 0 then defaultFee r
               else corridorFees r origin destination) > MAX_UINT256)"
  by (auto simp add: calculateFee_eq Let_def)

theorem calculateFee_pure_witness:
  "\<exists>r0 r1 r2. AIFiRemittance_constructor 9 5 = Inr r0 \<and> updateCorridorFee r0 9 ''US'' ''MX'' 80 = Inr r1
      \<and> updateTreasury r1 9 6 = Inr r2
      \<and> corridorFees r1 ''US'' ''MX'' = corridorFees r2 ''US'' ''MX'' \<and> defaultFee r1 = defaultFee r2
      \<and> calculateFee r1 ''US'' ''MX'' 1000 = calculateFee r2 ''US'' ''MX'' 1000
      \<and> corridorFees r1 ''US'' ''MX'' \<noteq> 0 \<and> 1000 * corridorFees r1 ''US'' ''MX'' \<le> MAX_UINT256
      \<and> calculateFee r1 ''US'' ''MX'' 1000 = Inr 8
      \<and> corridorFees r1 ''US'' ''CA'' = 0 \<and> 1000 * defaultFee r1 \<le> MAX_UINT256
      \<and> calculateFee r1 ''US'' ''CA'' 1000 = Inr 5"
proof -
  obtain r0 where r0: "AIFiRemittance_constructor 9 5 = Inr r0"
    by (simp add: AIFiRemittance_constructor_def require_def)
  obtain r1 where r1: "updateCorridorFee r0 9 ''US'' ''MX'' 80 = Inr r1"
    using r0 by (auto simp add: AIFiRemittance_constructor_def updateCorridorFee_def onlyOwner_def require_def)
  obtain r2 where r2: "updateTreasury r1 9 6 = Inr r2" and r2': "r2 = r1\<lparr>treasury := 6\<rparr>"
    using r0 r1 by (auto simp add: AIFiRemittance_constructor_def updateCorridorFee_def updateTreasury_def onlyOwner_def require_def)
  note f = remittance_deploy [OF r0 r1]
  have a: "corridorFees r1 ''US'' ''MX'' = corridorFees r2 ''US'' ''MX'' \<and> defaultFee r1 = defaultFee r2"
    by (simp add: r2')
  have b: "corridorFees r1 ''US'' ''MX'' \<noteq> 0 \<and> 1000 * corridorFees r1 ''US'' ''MX'' \<le> MAX_UINT256"
    using f by (simp add: MAX_UINT256_def)
  have c: "corridorFees r1 ''US'' ''CA'' = 0 \<and> 1000 * defaultFee r1 \<le> MAX_UINT256"
    using f by (simp add: MAX_UINT256_def)
  from calculateFee_pure [of r1 "''US''" "''MX''" r2 1000] a b f
  have 1: "calculateFee r1 ''US'' ''MX'' 1000 = calculateFee r2 ''US'' ''MX'' 1000"
    and 2: "calculateFee r1 ''US'' ''MX'' 1000 = Inr 8" by auto
  from calculateFee_pure [of r1 "''US''" "''CA''" r2 1000] c f
  have 3: "calculateFee r1 ''US'' ''CA'' 1000 = Inr 5" by simp
  show ?thesis using r0 r1 r2 a b c 1 2 3 by blast
qed

text \<open>
  Claim C10. After \<open>updateCorridorFee\<close> has stored the rate 0 for a corridor, the fee quoted
  for that corridor is the one of the default rate, \<open>amount * defaultFee div 10000\<close>, as for a
  corridor that was never configured: with a positive default rate the corridor is not free
  of fees (the fee is non-zero as soon as \<open>amount * defaultFee\<close> reaches 10000).
\<close>

theorem zero_corridor_fee_is_default:
  assumes "updateCorridorFee r sender origin destination 0 = Inr r'"
  shows "corridorFees r' origin destination = 0
       \<and> defaultFee r' = defaultFee r
       \<and> calculateFee r' origin destination amt =
           (if amt * defaultFee r \<le> MAX_UINT256 then Inr (amt * defaultFee r div 10000) else Inl (Panic 17))
       \<and> (0 < defaultFee r \<and> 10000 \<le> amt * defaultFee r \<and> amt * defaultFee r \<le> MAX_UINT256
            \<longrightarrow> calculateFee r' origin destination amt \<noteq> Inr 0)"
proof -
  from assms have r': "r' = r\<lparr>corridorFees := (corridorFees r)(origin := (corridorFees r origin)(destination := 0))\<rparr>"
    by (auto simp add: updateCorridorFee_def onlyOwner_def require_def split: if_splits)
  have "10000 \<le> amt * defaultFee r \<Longrightarrow> amt * defaultFee r div 10000 \<noteq> 0"
    by (simp add: div_greater_zero_iff)
  then show ?thesis by (simp add: r' calculateFee_eq)
qed

theorem zero_corridor_fee_is_default_witness:
  "\<exists>r0 r1. AIFiRemittance_constructor 9 5 = Inr r0 \<and> updateCorridorFee r0 9 ''US'' ''MX'' 0 = Inr r1
      \<and> calculateFee r1 ''US'' ''MX'' 1000 = Inr 5 \<and> calculateFee r1 ''US'' ''MX'' 1000 \<noteq> Inr 0"
proof -
  obtain r0 where r0: "AIFiRemittance_constructor 9 5 = Inr r0" and d: "defaultFee r0 = 50"
    by (simp add: AIFiRemittance_constructor_def require_def)
  obtain r1 where r1: "updateCorridorFee r0 9 ''US'' ''MX'' 0 = Inr r1"
    using r0 by (auto simp add: AIFiRemittance_constructor_def updateCorridorFee_def onlyOwner_def require_def)
  from zero_corridor_fee_is_default [OF r1, of 1000] d
  have "calculateFee r1 ''US'' ''MX'' 1000 = Inr 5 \<and> calculateFee r1 ''US'' ''MX'' 1000 \<noteq> Inr 0"
    by (simp add: MAX_UINT256_def)
  then show ?thesis using r0 r1 by blast
qed

section \<open>The command registry\<close>

lemma registerAction_active:
  assumes "action_active (actions v h)"
  shows "registerAction v sender h target selector descr =
     (if sender \<noteq> vi_owner v then Inl (Revert ''Ownable: caller is not the owner'')
      else if h = 0 then Inl (Revert ''Invalid command hash'')
      else if target = 0 then Inl (Revert ''Invalid target contract'')
      else if selector = 0 then Inl (Revert ''Invalid function selector'')
      else if descr = [] then Inl (Revert ''Invalid description'')
      else Inl (Revert ''Command already registered''))"
  using assms by (auto simp add: registerAction_def onlyOwner_def require_def)

text \<open>
  Claim C9. \<open>generateCommandHash\<close> (the spec's \<open>hashCommand\<close>) is the hash of the packed
  encoding of language, colon and command, so equal inputs give the equal 32-byte value.
  \<open>registerAction\<close> on a hash whose action is active never succeeds, whoever calls it and
  with whatever arguments; when the call is otherwise valid (the owner calls, with a non-zero
  hash, target and selector and a non-empty description) the reason is
  \<open>Command already registered\<close>, a \<open>StateError\<close>; the registry, and with it the stored
  action, is as before.
\<close>

theorem registerAction_twice_rejected:
  "(language = language' \<and> command = command'
      \<longrightarrow> generateCommandHash keccak256 language command = generateCommandHash keccak256 language' command')
   \<and> generateCommandHash keccak256 language command = keccak256 (language @ '':'' @ command)
   \<and> (action_active (actions v h) \<longrightarrow>
        (\<exists>e. registerAction v sender h target selector descr = Inl e)
      \<and> (sender = vi_owner v \<and> h \<noteq> 0 \<and> target \<noteq> 0 \<and> selector \<noteq> 0 \<and> descr \<noteq> []
          \<longrightarrow> registerAction v sender h target selector descr = Inl (Revert ''Command already registered'')
            \<and> error_kind_of (Revert ''Command already registered'') = StateError)
      \<and> after v (registerAction v sender h target selector descr) = v
      \<and> actions (after v (registerAction v sender h target selector descr)) h = actions v h)"
proof -
  have k: "error_kind_of (Revert ''Command already registered'') = StateError"
    by (simp add: error_kind_of_def)
  show ?thesis
    by (simp add: generateCommandHash_def registerAction_active after_def k)
qed

theorem registerAction_twice_rejected_witness:
  "\<exists>v1. registerAction (AIFiVoiceInterface_constructor 9) 9 42 100 1 ''deposit'' = Inr v1
     \<and> action_active (actions v1 42)
     \<and> registerAction v1 9 42 200 2 ''withdraw'' = Inl (Revert ''Command already registered'')
     \<and> error_kind_of (Revert ''Command already registered'') = StateError
     \<and> actions (after v1 (registerAction v1 9 42 200 2 ''withdraw'')) 42 =
         \<lparr>targetContract = 100, functionSelector = 1, description = ''deposit'', action_active = True\<rparr>
     \<and> generateCommandHash (\<lambda>s. of_nat (length s)) ''en'' ''deposit'' =
         generateCommandHash (\<lambda>s. of_nat (length s)) ''en'' ''deposit''"
proof -
  define v1 where "v1 = (AIFiVoiceInterface_constructor 9)\<lparr>actions := (actions (AIFiVoiceInterface_constructor 9))(42 :=
       \<lparr>targetContract = 100, functionSelector = 1, description = ''deposit'', action_active = True\<rparr>)\<rparr>"
  have 1: "registerAction (AIFiVoiceInterface_constructor 9) 9 42 100 1 ''deposit'' = Inr v1"
    by (simp add: v1_def registerAction_def onlyOwner_def require_def AIFiVoiceInterface_constructor_def empty_ActionInfo_def)
  have 2: "action_active (actions v1 42)" and 3: "vi_owner v1 = 9"
    and 4: "actions v1 42 = \<lparr>targetContract = 100, functionSelector = 1, description = ''deposit'', action_active = True\<rparr>"
    by (simp_all add: v1_def AIFiVoiceInterface_constructor_def)
  from registerAction_twice_rejected [of "''en''" "''en''" "''deposit''" "''deposit''" "\<lambda>s. of_nat (length s)" v1 42 9 200 2 "''withdraw''"] 2 3 4
  show ?thesis using 1 by auto
qed

section \<open>The risk oracle\<close>

lemma getRiskTier_eq:
  "getRiskTier ro sender user =
     (if authorizedCallers ro sender \<or> sender = ro_owner ro
      then Inr (if user = 0 \<or> userRiskTiers ro user = LOW then 1 else uint8_of_RiskTier (userRiskTiers ro user))
      else Inl (Revert ''Not authorized''))"
  by (simp add: getRiskTier_def onlyAuthorized_def require_def)

text \<open>What holds of claim C3: \<open>MEDIUM\<close> and \<open>HIGH\<close> are read back, a caller that is neither
  authorized nor the owner is turned away.\<close>

lemma getRiskTier_MEDIUM_HIGH:
  assumes "authorizedCallers ro sender \<or> sender = ro_owner ro" and "user \<noteq> 0"
    and "userRiskTiers ro user \<noteq> LOW"
  shows "getRiskTier ro sender user = Inr (uint8_of_RiskTier (userRiskTiers ro user))"
  using assms by (simp add: getRiskTier_eq)

lemma getRiskTier_unauthorized:
  assumes "\<not> authorizedCallers ro sender" and "sender \<noteq> ro_owner ro"
  shows "getRiskTier ro sender user = Inl (Revert ''Not authorized'')"
  using assms by (simp add: getRiskTier_eq)

text \<open>
  Claim C3, where the code departs from it. The updater 3 sets the tier of account 1 to
  \<open>LOW\<close>; the owner 9 then reads the tier of account 1 and gets \<open>uint8(MEDIUM) = 1\<close>, not
  \<open>uint8(LOW) = 0\<close>: \<open>getRiskTier\<close> takes a stored \<open>RiskTier(0)\<close> for "never set".
\<close>

theorem getRiskTier_LOW_reads_MEDIUM:
  "\<exists>ro0 ro1. AIRiskOracle_constructor 9 3 = Inr ro0
      \<and> updateRiskTier ro0 3 1 LOW = Inr ro1
      \<and> userRiskTiers ro1 1 = LOW
      \<and> getRiskTier ro1 9 1 = Inr (uint8_of_RiskTier MEDIUM)
      \<and> getRiskTier ro1 9 1 \<noteq> Inr (uint8_of_RiskTier LOW)"
proof -
  define ro0 where "ro0 = \<lparr>ro_owner = 9, userRiskTiers = (\<lambda>_. LOW),
            authorizedCallers = (\<lambda>_. False), aiOracleUpdater = 3\<rparr>"
  have 0: "AIRiskOracle_constructor 9 3 = Inr ro0"
    by (simp add: AIRiskOracle_constructor_def require_def ro0_def)
  have 1: "updateRiskTier ro0 3 1 LOW = Inr (ro0\<lparr>userRiskTiers := (userRiskTiers ro0)(1 := LOW)\<rparr>)"
    by (simp add: updateRiskTier_def onlyOracleUpdater_def require_def ro0_def)
  have 2: "getRiskTier (ro0\<lparr>userRiskTiers := (userRiskTiers ro0)(1 := LOW)\<rparr>) 9 1 = Inr 1"
    by (simp add: getRiskTier_eq ro0_def)
  show ?thesis using 0 1 2 by simp
qed

section \<open>The lending pool\<close>

subsection \<open>Sums over all accounts\<close>

lemma sum_upd_nat:
  fixes f :: "address \<Rightarrow> nat"
  shows "(\<Sum>u\<in>UNIV. (f(a := v)) u) = (\<Sum>u\<in>UNIV. f u) - f a + v"
proof -
  have 1: "(\<Sum>u\<in>UNIV. (f(a := v)) u) = v + (\<Sum>u\<in>UNIV - {a}. (f(a := v)) u)"
    by (subst sum.remove [of UNIV a]) simp_all
  have 2: "(\<Sum>u\<in>UNIV. f u) = f a + (\<Sum>u\<in>UNIV - {a}. f u)"
    by (subst sum.remove [of UNIV a]) simp_all
  have 3: "(\<Sum>u\<in>UNIV - {a}. (f(a := v)) u) = (\<Sum>u\<in>UNIV - {a}. f u)"
    by (rule sum.cong) simp_all
  show ?thesis using 1 2 3 by simp
qed

lemma sum_ge_member:
  fixes f :: "address \<Rightarrow> nat"
  shows "f a \<le> (\<Sum>u\<in>UNIV. f u)"
  by (subst sum.remove [of UNIV a]) simp_all

subsection \<open>What a successful call did\<close>

lemma deposit_Inr:
  assumes "deposit this p tk sender token amt = Inr (p', tk')"
  shows "p' = p\<lparr>userDeposits := (userDeposits p)(sender := (userDeposits p sender)(token := userDeposits p sender token + amt)),
                  totalDeposits := (totalDeposits p)(token := totalDeposits p token + amt)\<rparr>"
  using assms
  by (auto simp add: deposit_def require_def bind_def add_def split: if_splits sum.splits)

lemma withdraw_Inr:
  assumes "withdraw this p tk sender token amt = Inr (p', tk')"
  shows "p' = p\<lparr>userDeposits := (userDeposits p)(sender := (userDeposits p sender)(token := userDeposits p sender token - amt)),
                  totalDeposits := (totalDeposits p)(token := totalDeposits p token - amt)\<rparr>
         \<and> amt \<le> userDeposits p sender token \<and> amt \<le> totalDeposits p token"
  using assms
  by (auto simp add: withdraw_def require_def bind_def sub_def split: if_splits sum.splits)

lemma borrow_Inr:
  assumes "borrow this now p tk sender token amt = Inr (p', tk')"
  shows "p' = p\<lparr>userLoans := (userLoans p)(sender := (userLoans p sender)(token :=
                     \<lparr>amount = amt, timestamp = now, riskTier = MEDIUM, active = True\<rparr>)),
                  totalDeposits := (totalDeposits p)(token := totalDeposits p token - amt)\<rparr>
         \<and> \<not> active (userLoans p sender token) \<and> amt \<le> totalDeposits p token \<and> 0 < amt
         \<and> supportedTokens p token"
  using assms
  by (auto simp add: borrow_def require_def bind_def sub_def getRiskTierFromOracle_def Let_def split: if_splits sum.splits)

lemma repay_Inr:
  assumes "repay this now p tk sender token = Inr (p', tk')"
  shows "\<exists>interest. calculateInterest p (amount (userLoans p sender token)) (now - timestamp (userLoans p sender token))
                        (riskTier (userLoans p sender token)) = Inr interest
         \<and> p' = p\<lparr>totalDeposits := (totalDeposits p)(token := totalDeposits p token + (amount (userLoans p sender token) + interest)),
                  userLoans := (userLoans p)(sender := (userLoans p sender)(token := (userLoans p sender token)\<lparr>active := False\<rparr>))\<rparr>
         \<and> active (userLoans p sender token)"
  using assms
  by (auto simp add: repay_def require_def bind_def sub_def add_def Let_def split: if_splits sum.splits)

lemma sum_balances_upd:
  "sum_balances (p\<lparr>userDeposits := (userDeposits p)(s := (userDeposits p s)(t := v))\<rparr>) t' =
     (if t' = t then sum_balances p t - userDeposits p s t + v else sum_balances p t')"
proof (cases "t' = t")
  case True
  have "(\<lambda>u. ((userDeposits p)(s := (userDeposits p s)(t := v))) u t) = (\<lambda>u. userDeposits p u t)(s := v)"
    by (auto simp add: fun_eq_iff)
  then have "(\<Sum>u\<in>UNIV. ((userDeposits p)(s := (userDeposits p s)(t := v))) u t)
               = (\<Sum>u\<in>UNIV. userDeposits p u t) - userDeposits p s t + v"
    by (simp only: sum_upd_nat)
  then show ?thesis using True by (simp add: sum_balances_def)
next
  case False
  have "(\<lambda>u. ((userDeposits p)(s := (userDeposits p s)(t := v))) u t') = (\<lambda>u. userDeposits p u t')"
    using False by (auto simp add: fun_eq_iff)
  then have "(\<Sum>u\<in>UNIV. ((userDeposits p)(s := (userDeposits p s)(t := v))) u t')
               = (\<Sum>u\<in>UNIV. userDeposits p u t')"
    by (simp only:)
  then show ?thesis using False by (simp add: sum_balances_def)
qed

lemma userDeposits_le_sum: "userDeposits p s t \<le> sum_balances p t"
  unfolding sum_balances_def by (rule sum_ge_member [of "\<lambda>u. userDeposits p u t" s])



lemma outstanding_principal: "outstanding p t = (\<Sum>u\<in>UNIV. principal (userLoans p u t))"
  by (simp add: outstanding_def principal_def)

lemma outstanding_upd:
  "outstanding (p\<lparr>userLoans := (userLoans p)(s := (userLoans p s)(t := l))\<rparr>) t' =
     (if t' = t then outstanding p t - (if active (userLoans p s t) then amount (userLoans p s t) else 0)
                       + (if active l then amount l else 0)
      else outstanding p t')"
proof (cases "t' = t")
  case True
  have "(\<lambda>u. principal (((userLoans p)(s := (userLoans p s)(t := l))) u t))
          = (\<lambda>u. principal (userLoans p u t))(s := principal l)"
    by (auto simp add: fun_eq_iff)
  then have "(\<Sum>u\<in>UNIV. principal (((userLoans p)(s := (userLoans p s)(t := l))) u t))
               = (\<Sum>u\<in>UNIV. principal (userLoans p u t)) - principal (userLoans p s t) + principal l"
    by (simp only: sum_upd_nat)
  then have "outstanding (p\<lparr>userLoans := (userLoans p)(s := (userLoans p s)(t := l))\<rparr>) t
               = outstanding p t - principal (userLoans p s t) + principal l"
    by (simp add: outstanding_principal)
  then show ?thesis using True by (simp add: principal_def)
next
  case False
  have "(\<lambda>u. principal (((userLoans p)(s := (userLoans p s)(t := l))) u t'))
          = (\<lambda>u. principal (userLoans p u t'))"
    using False by (auto simp add: fun_eq_iff)
  then have "(\<Sum>u\<in>UNIV. principal (((userLoans p)(s := (userLoans p s)(t := l))) u t'))
               = (\<Sum>u\<in>UNIV. principal (userLoans p u t'))"
    by (simp only:)
  then show ?thesis using False by (simp add: outstanding_principal)
qed

lemma principal_le_outstanding:
  "(if active (userLoans p s t) then amount (userLoans p s t) else 0) \<le> outstanding p t"
  unfolding outstanding_def
  by (rule sum_ge_member [of "\<lambda>u. if active (userLoans p u t) then amount (userLoans p u t) else 0" s])

lemma outstanding_totalDeposits_upd [simp]:
  "outstanding (p\<lparr>totalDeposits := td\<rparr>) t = outstanding p t"
  "outstanding (p\<lparr>userDeposits := ud\<rparr>) t = outstanding p t"
  "sum_balances (p\<lparr>totalDeposits := td\<rparr>) t = sum_balances p t"
  "sum_balances (p\<lparr>userLoans := ul\<rparr>) t = sum_balances p t"
  by (simp_all add: outstanding_principal sum_balances_def)

lemma admin_Inr:
  assumes "c = AddSupportedToken a \<or> c = RemoveSupportedToken a \<or> c = UpdateInterestRate tier n \<or> c = UpdateRiskOracle a"
    and "lp_call this (p, tk) (sender, now, c) = Inr (p', tk')"
  shows "userDeposits p' = userDeposits p \<and> userLoans p' = userLoans p \<and> totalDeposits p' = totalDeposits p"
  using assms
  by (auto simp add: addSupportedToken_def removeSupportedToken_def updateInterestRate_def updateRiskOracle_def
        onlyOwner_def require_def bind_def split: if_splits)

lemma sum_outstanding_cong:
  assumes "userDeposits p' = userDeposits p" "userLoans p' = userLoans p"
  shows "sum_balances p' t = sum_balances p t" "outstanding p' t = outstanding p t"
  using assms by (simp_all add: sum_balances_def outstanding_principal)

subsection \<open>Invariants of the ledger\<close>

text \<open>A call that is no borrow or repay keeps the balances equal to the counter.\<close>

lemma lp_call_equal:
  assumes "lp_call this (p, tk) (sender, now, c) = Inr (p', tk')"
    and "\<not> is_loan_call (sender, now, c)"
    and "sum_balances p t = totalDeposits p t"
  shows "sum_balances p' t = totalDeposits p' t"
proof (cases c)
  case (Deposit token amt)
  with assms(1) have "deposit this p tk sender token amt = Inr (p', tk')" by simp
  from deposit_Inr [OF this] show ?thesis
    using assms(3) userDeposits_le_sum [of p sender t] by (auto simp add: sum_balances_upd)
next
  case (Withdraw token amt)
  with assms(1) have "withdraw this p tk sender token amt = Inr (p', tk')" by simp
  from withdraw_Inr [OF this] show ?thesis
    using assms(3) userDeposits_le_sum [of p sender t] by (auto simp add: sum_balances_upd)
next
  case (Borrow token amt)
  with assms(2) show ?thesis by simp
next
  case (Repay token)
  with assms(2) show ?thesis by simp
next
  case (AddSupportedToken a)
  from admin_Inr [OF _ assms(1), of a] AddSupportedToken sum_outstanding_cong [of p' p t] assms(3)
  show ?thesis by simp
next
  case (RemoveSupportedToken a)
  from admin_Inr [OF _ assms(1), of a] RemoveSupportedToken sum_outstanding_cong [of p' p t] assms(3)
  show ?thesis by simp
next
  case (UpdateInterestRate tier n)
  from admin_Inr [OF _ assms(1), of _ tier n] UpdateInterestRate sum_outstanding_cong [of p' p t] assms(3)
  show ?thesis by simp
next
  case (UpdateRiskOracle a)
  from admin_Inr [OF _ assms(1), of a] UpdateRiskOracle sum_outstanding_cong [of p' p t] assms(3)
  show ?thesis by simp
qed

lemma lp_exec_equal:
  assumes "sum_balances (fst w) t = totalDeposits (fst w) t" and "\<not> is_loan_call tx"
  shows "sum_balances (fst (lp_exec this w tx)) t = totalDeposits (fst (lp_exec this w tx)) t"
proof (cases "lp_call this w tx")
  case (Inl e)
  then show ?thesis using assms by (simp add: lp_exec_def)
next
  case (Inr w')
  obtain p tk where w: "w = (p, tk)" by (cases w)
  obtain sender now c where tx: "tx = (sender, now, c)" by (cases tx)
  obtain p' tk' where w': "w' = (p', tk')" by (cases w')
  from lp_call_equal [of this p tk sender now c p' tk' t] Inr assms
  show ?thesis by (simp add: lp_exec_def w tx w')
qed

lemma lp_run_equal:
  assumes "sum_balances (fst w) t = totalDeposits (fst w) t" and "\<forall>x\<in>set txs. \<not> is_loan_call x"
  shows "sum_balances (fst (lp_run this w txs)) t = totalDeposits (fst (lp_run this w txs)) t"
  using assms
proof (induction txs arbitrary: w)
  case Nil
  then show ?case by (simp add: lp_run_def)
next
  case (Cons tx txs)
  from Cons.prems have "\<not> is_loan_call tx" and rest: "\<forall>x\<in>set txs. \<not> is_loan_call x" by simp_all
  from Cons.IH [OF lp_exec_equal [OF Cons.prems(1) this(1), of this] rest]
  show ?case by (simp add: lp_run_def)
qed

lemma constructor_empty:
  "sum_balances (AIFiLendingPool_constructor d orc) t = 0"
  "totalDeposits (AIFiLendingPool_constructor d orc) t = 0"
  "outstanding (AIFiLendingPool_constructor d orc) t = 0"
  by (simp_all add: sum_balances_def outstanding_def AIFiLendingPool_constructor_def empty_Loan_def)

text \<open>
  The exact account: with \<open>K\<close> the interest paid in so far, balances plus \<open>K\<close> are the
  counter plus the principal out on loan, and one call keeps it so.
\<close>

lemma lp_call_exact:
  assumes "lp_call this (p, tk) (sender, now, c) = Inr (p', tk')"
    and "sum_balances p t + K = totalDeposits p t + outstanding p t"
  shows "sum_balances p' t + (K + interest_of this (p, tk) (sender, now, c) t)
           = totalDeposits p' t + outstanding p' t"
proof (cases c)
  case (Deposit token amt)
  with assms(1) have "deposit this p tk sender token amt = Inr (p', tk')" by simp
  from deposit_Inr [OF this] show ?thesis
    using assms(2) userDeposits_le_sum [of p sender t] Deposit by (auto simp add: sum_balances_upd)
next
  case (Withdraw token amt)
  with assms(1) have "withdraw this p tk sender token amt = Inr (p', tk')" by simp
  from withdraw_Inr [OF this] show ?thesis
    using assms(2) userDeposits_le_sum [of p sender t] Withdraw by (auto simp add: sum_balances_upd)
next
  case (Borrow token amt)
  with assms(1) have "borrow this now p tk sender token amt = Inr (p', tk')" by simp
  from borrow_Inr [OF this] have
    p': "p' = p\<lparr>userLoans := (userLoans p)(sender := (userLoans p sender)(token :=
                     \<lparr>amount = amt, timestamp = now, riskTier = MEDIUM, active = True\<rparr>)),
                  totalDeposits := (totalDeposits p)(token := totalDeposits p token - amt)\<rparr>"
    and na: "\<not> active (userLoans p sender token)" and le: "amt \<le> totalDeposits p token" by simp_all
  show ?thesis
    using assms(2) na le Borrow by (auto simp add: p' outstanding_upd)
next
  case (Repay token)
  with assms(1) have r: "repay this now p tk sender token = Inr (p', tk')" by simp
  from repay_Inr [OF r] obtain interest where
    i: "calculateInterest p (amount (userLoans p sender token)) (now - timestamp (userLoans p sender token))
                        (riskTier (userLoans p sender token)) = Inr interest"
    and p': "p' = p\<lparr>totalDeposits := (totalDeposits p)(token := totalDeposits p token + (amount (userLoans p sender token) + interest)),
                  userLoans := (userLoans p)(sender := (userLoans p sender)(token := (userLoans p sender token)\<lparr>active := False\<rparr>))\<rparr>"
    and a: "active (userLoans p sender token)" by blast
  have p'': "p' = (p\<lparr>userLoans := (userLoans p)(sender := (userLoans p sender)(token := (userLoans p sender token)\<lparr>active := False\<rparr>))\<rparr>)
                    \<lparr>totalDeposits := (totalDeposits p)(token := totalDeposits p token + (amount (userLoans p sender token) + interest))\<rparr>"
    by (simp add: p')
  have io: "interest_of this (p, tk) (sender, now, Repay token) t = (if token = t then interest else 0)"
    using r i by auto
  show ?thesis
    using assms(2) a principal_le_outstanding [of p sender token]
    by (auto simp add: Repay io p'' outstanding_upd simp del: interest_of.simps)
next
  case (AddSupportedToken a)
  from admin_Inr [OF _ assms(1), of a] AddSupportedToken sum_outstanding_cong [of p' p t] assms(2)
  show ?thesis by simp
next
  case (RemoveSupportedToken a)
  from admin_Inr [OF _ assms(1), of a] RemoveSupportedToken sum_outstanding_cong [of p' p t] assms(2)
  show ?thesis by simp
next
  case (UpdateInterestRate tier n)
  from admin_Inr [OF _ assms(1), of _ tier n] UpdateInterestRate sum_outstanding_cong [of p' p t] assms(2)
  show ?thesis by simp
next
  case (UpdateRiskOracle a)
  from admin_Inr [OF _ assms(1), of a] UpdateRiskOracle sum_outstanding_cong [of p' p t] assms(2)
  show ?thesis by simp
qed

lemma interest_of_reverted:
  assumes "lp_call this w tx = Inl e"
  shows "interest_of this w tx t = 0"
proof -
  obtain p tk where w: "w = (p, tk)" by (cases w)
  obtain sender now c where tx: "tx = (sender, now, c)" by (cases tx)
  show ?thesis using assms by (cases c) (auto simp add: w tx)
qed

lemma lp_exec_exact:
  assumes "sum_balances (fst w) t + K = totalDeposits (fst w) t + outstanding (fst w) t"
  shows "sum_balances (fst (lp_exec this w tx)) t + (K + interest_of this w tx t)
           = totalDeposits (fst (lp_exec this w tx)) t + outstanding (fst (lp_exec this w tx)) t"
proof (cases "lp_call this w tx")
  case (Inl e)
  then show ?thesis using assms interest_of_reverted [OF Inl, of t] by (simp add: lp_exec_def)
next
  case (Inr w')
  obtain p tk where w: "w = (p, tk)" by (cases w)
  obtain sender now c where tx: "tx = (sender, now, c)" by (cases tx)
  obtain p' tk' where w': "w' = (p', tk')" by (cases w')
  from lp_call_exact [of this p tk sender now c p' tk' t K] Inr assms
  show ?thesis by (simp add: lp_exec_def w tx w')
qed

lemma lp_run_exact:
  assumes "sum_balances (fst w) t + K = totalDeposits (fst w) t + outstanding (fst w) t"
  shows "sum_balances (fst (lp_run this w txs)) t + (K + interest_collected this w txs t)
           = totalDeposits (fst (lp_run this w txs)) t + outstanding (fst (lp_run this w txs)) t"
  using assms
proof (induction txs arbitrary: w K)
  case Nil
  then show ?case by (simp add: lp_run_def)
next
  case (Cons tx txs)
  from Cons.IH [OF lp_exec_exact [OF Cons.prems, of this tx]]
  show ?case by (simp add: lp_run_def add.assoc)
qed

lemma interest_collected_no_repay:
  assumes "\<forall>x\<in>set txs. \<not> is_repay x"
  shows "interest_collected this w txs t = 0"
  using assms
proof (induction txs arbitrary: w)
  case Nil
  then show ?case by simp
next
  case (Cons tx txs)
  obtain sender now c where tx: "tx = (sender, now, c)" by (cases tx)
  from Cons.prems have "\<not> is_repay tx" by simp
  then have "interest_of this w tx t = 0" by (cases c) (simp_all add: tx)
  with Cons show ?case by simp
qed

subsection \<open>The loan of an account\<close>

lemma lp_call_userLoans:
  assumes "lp_call this (p, tk) (sender, now, c) = Inr (p', tk')"
  shows "(case c of
            Borrow token amt \<Rightarrow> \<not> active (userLoans p sender token)
               \<and> userLoans p' = (userLoans p)(sender := (userLoans p sender)(token :=
                     \<lparr>amount = amt, timestamp = now, riskTier = MEDIUM, active = True\<rparr>))
          | Repay token \<Rightarrow> active (userLoans p sender token)
               \<and> userLoans p' = (userLoans p)(sender := (userLoans p sender)(token :=
                     (userLoans p sender token)\<lparr>active := False\<rparr>))
          | _ \<Rightarrow> userLoans p' = userLoans p)"
proof (cases c)
  case (Deposit token amt)
  with assms have "deposit this p tk sender token amt = Inr (p', tk')" by simp
  from deposit_Inr [OF this] show ?thesis by (simp add: Deposit)
next
  case (Withdraw token amt)
  with assms have "withdraw this p tk sender token amt = Inr (p', tk')" by simp
  from withdraw_Inr [OF this] show ?thesis by (simp add: Withdraw)
next
  case (Borrow token amt)
  with assms have "borrow this now p tk sender token amt = Inr (p', tk')" by simp
  from borrow_Inr [OF this] show ?thesis by (simp add: Borrow)
next
  case (Repay token)
  with assms have "repay this now p tk sender token = Inr (p', tk')" by simp
  from repay_Inr [OF this] show ?thesis by (auto simp add: Repay)
next
  case (AddSupportedToken a)
  from admin_Inr [OF _ assms, of a] AddSupportedToken show ?thesis by simp
next
  case (RemoveSupportedToken a)
  from admin_Inr [OF _ assms, of a] RemoveSupportedToken show ?thesis by simp
next
  case (UpdateInterestRate tier n)
  from admin_Inr [OF _ assms, of _ tier n] UpdateInterestRate show ?thesis by simp
next
  case (UpdateRiskOracle a)
  from admin_Inr [OF _ assms, of a] UpdateRiskOracle show ?thesis by simp
qed

lemma lp_exec_userLoans:
  "(\<not> active (userLoans p u t) \<and> active (userLoans (fst (lp_exec this (p, tk) (sender, now, c))) u t)
       \<longrightarrow> sender = u \<and> (\<exists>a. c = Borrow t a))
   \<and> (active (userLoans p u t) \<and> \<not> active (userLoans (fst (lp_exec this (p, tk) (sender, now, c))) u t)
       \<longrightarrow> sender = u \<and> c = Repay t)
   \<and> (active (userLoans p u t) \<and> active (userLoans (fst (lp_exec this (p, tk) (sender, now, c))) u t)
       \<longrightarrow> userLoans (fst (lp_exec this (p, tk) (sender, now, c))) u t = userLoans p u t)"
proof (cases "lp_call this (p, tk) (sender, now, c)")
  case (Inl e)
  then show ?thesis by (simp add: lp_exec_def)
next
  case (Inr w')
  obtain p' tk' where w': "w' = (p', tk')" by (cases w')
  have e: "fst (lp_exec this (p, tk) (sender, now, c)) = p'"
    using Inr w' by (simp add: lp_exec_def)
  from lp_call_userLoans [OF Inr [unfolded w']]
  show ?thesis unfolding e
    by (cases c) (auto split: if_splits)
qed

lemma borrow_active:
  assumes "active (userLoans p u t)"
  shows "borrow this now p tk u t amt =
     (if \<not> supportedTokens p t then Inl (Revert ''Token not supported'')
      else if amt = 0 then Inl (Revert ''Amount must be greater than 0'')
      else if totalDeposits p t < amt then Inl (Revert ''Insufficient liquidity'')
      else Inl (Revert ''Existing loan active''))"
  using assms by (auto simp add: borrow_def require_def)

lemma repay_inactive:
  assumes "\<not> active (userLoans p u t)"
  shows "repay this now p tk u t = Inl (Revert ''No active loan'')"
  using assms by (simp add: repay_def require_def Let_def)

subsection \<open>Scenario A, step by step\<close>

lemmas pool_defs = bind_def require_def onlyOwner_def add_def sub_def mul_def div_u_def MAX_UINT256_def
  balanceOf_def transfer_internal_def spendAllowance_def safeTransfer_def safeTransferFrom_def
  AIFiLendingPool_constructor_def addSupportedToken_def deposit_def withdraw_def borrow_def repay_def
  calculateInterest_def getRiskTierFromOracle_def empty_Loan_def Let_def

lemma scenario_A_deposited:
  "\<exists>p1 p2 tk2.
     addSupportedToken (AIFiLendingPool_constructor 9 8) 9 7 = Inr p1
   \<and> deposit 100 p1 scenA_tokens 1 7 1000 = Inr (p2, tk2)
   \<and> supportedTokens p2 7
   \<and> userDeposits p2 = (\<lambda>_ _. 0)(1 := (\<lambda>_. 0)(7 := 1000))
   \<and> totalDeposits p2 7 = 1000
   \<and> \<not> active (userLoans p2 1 7)
   \<and> interestRates p2 MEDIUM = 1000
   \<and> balances (tk2 7) = (\<lambda>_. 0)(1 := 39, 100 := 1000)
   \<and> allowances (tk2 7) 1 100 = 439"
proof -
  define p0 where "p0 = AIFiLendingPool_constructor 9 8"
  define p1 where "p1 = p0\<lparr>supportedTokens := (supportedTokens p0)(7 := True)\<rparr>"
  define p2 where "p2 = p1\<lparr>userDeposits := (userDeposits p1)(1 := (userDeposits p1 1)(7 := 1000)),
                             totalDeposits := (totalDeposits p1)(7 := 1000)\<rparr>"
  define tk2 :: tokens where "tk2 = scenA_tokens(7 := \<lparr>balances = (\<lambda>_. 0)(1 := 39, 100 := 1000),
                               allowances = (\<lambda>_ _. 0)(1 := (\<lambda>_. 0)(100 := 439))\<rparr>)"
  have 1: "addSupportedToken (AIFiLendingPool_constructor 9 8) 9 7 = Inr p1"
    by (simp add: pool_defs p0_def p1_def)
  have 2: "deposit 100 p1 scenA_tokens 1 7 1000 = Inr (p2, tk2)"
    by (simp add: pool_defs p0_def p1_def p2_def scenA_tokens_def tk2_def fun_upd_twist)
  have 3: "supportedTokens p2 7" "userDeposits p2 = (\<lambda>_ _. 0)(1 := (\<lambda>_. 0)(7 := 1000))"
     "totalDeposits p2 7 = 1000" "\<not> active (userLoans p2 1 7)" "interestRates p2 MEDIUM = 1000"
    by (simp_all add: p2_def p1_def p0_def AIFiLendingPool_constructor_def empty_Loan_def)
  have 4: "balances (tk2 7) = (\<lambda>_. 0)(1 := 39, 100 := 1000)" "allowances (tk2 7) 1 100 = 439"
    by (simp_all add: tk2_def)
  show ?thesis using 1 2 3 4 by blast
qed

lemma scenario_A_borrowed:
  "\<exists>p1 p2 tk2 p3 tk3.
     addSupportedToken (AIFiLendingPool_constructor 9 8) 9 7 = Inr p1
   \<and> deposit 100 p1 scenA_tokens 1 7 1000 = Inr (p2, tk2)
   \<and> \<not> active (userLoans p2 1 7)
   \<and> borrow 100 5000 p2 tk2 1 7 400 = Inr (p3, tk3)
   \<and> supportedTokens p3 7
   \<and> userDeposits p3 = (\<lambda>_ _. 0)(1 := (\<lambda>_. 0)(7 := 1000))
   \<and> totalDeposits p3 7 = 600
   \<and> userLoans p3 1 7 = \<lparr>amount = 400, timestamp = 5000, riskTier = MEDIUM, active = True\<rparr>
   \<and> interestRates p3 MEDIUM = 1000
   \<and> balances (tk3 7) = (\<lambda>_. 0)(1 := 439, 100 := 600)
   \<and> allowances (tk3 7) 1 100 = 439"
proof -
  from scenario_A_deposited obtain p1 p2 tk2 where
    s: "addSupportedToken (AIFiLendingPool_constructor 9 8) 9 7 = Inr p1"
       "deposit 100 p1 scenA_tokens 1 7 1000 = Inr (p2, tk2)"
    and p2: "supportedTokens p2 7" "userDeposits p2 = (\<lambda>_ _. 0)(1 := (\<lambda>_. 0)(7 := 1000))"
       "totalDeposits p2 7 = 1000" "\<not> active (userLoans p2 1 7)" "interestRates p2 MEDIUM = 1000"
    and tk2: "balances (tk2 7) = (\<lambda>_. 0)(1 := 39, 100 := 1000)" "allowances (tk2 7) 1 100 = 439"
    by blast
  define p3 where "p3 = p2\<lparr>userLoans := (userLoans p2)(1 := (userLoans p2 1)(7 :=
                               \<lparr>amount = 400, timestamp = 5000, riskTier = MEDIUM, active = True\<rparr>)),
                             totalDeposits := (totalDeposits p2)(7 := 600)\<rparr>"
  define tk3 :: tokens where "tk3 = tk2(7 := (tk2 7)\<lparr>balances := (\<lambda>_. 0)(1 := 439, 100 := 600)\<rparr>)"
  have 3: "borrow 100 5000 p2 tk2 1 7 400 = Inr (p3, tk3)"
    unfolding borrow_def
    by (simp add: p2 tk2 p3_def tk3_def Let_def bind_def require_def sub_def getRiskTierFromOracle_def
          safeTransfer_def transfer_internal_def fun_upd_twist)
  have 4: "supportedTokens p3 7" "userDeposits p3 = (\<lambda>_ _. 0)(1 := (\<lambda>_. 0)(7 := 1000))" "totalDeposits p3 7 = 600"
     "userLoans p3 1 7 = \<lparr>amount = 400, timestamp = 5000, riskTier = MEDIUM, active = True\<rparr>"
     "interestRates p3 MEDIUM = 1000"
    by (simp_all add: p3_def p2)
  have 5: "balances (tk3 7) = (\<lambda>_. 0)(1 := 439, 100 := 600)" "allowances (tk3 7) 1 100 = 439"
    by (simp_all add: tk3_def tk2)
  show ?thesis using s p2(4) 3 4 5 by blast
qed

lemma interest_400_one_year:
  assumes "interestRates p MEDIUM = 1000"
  shows "calculateInterest p 400 31536000 MEDIUM = Inr 39"
    and "calculateInterest p (400 * 10 ^ 18) 31536000 MEDIUM = Inr 39999999995251200000"
  using assms by (simp_all add: calculateInterest_def bind_def mul_def div_u_def MAX_UINT256_def)

lemma scenario_A_repaid:
  "\<exists>p1 p2 tk2 p3 tk3 p4 tk4.
     addSupportedToken (AIFiLendingPool_constructor 9 8) 9 7 = Inr p1
   \<and> deposit 100 p1 scenA_tokens 1 7 1000 = Inr (p2, tk2)
   \<and> \<not> active (userLoans p2 1 7)
   \<and> borrow 100 5000 p2 tk2 1 7 400 = Inr (p3, tk3)
   \<and> supportedTokens p3 7
   \<and> totalDeposits p3 7 = 600
   \<and> userLoans p3 1 7 = \<lparr>amount = 400, timestamp = 5000, riskTier = MEDIUM, active = True\<rparr>
   \<and> interestRates p3 MEDIUM = 1000
   \<and> balances (tk3 7) 1 = 439
   \<and> repay 100 (5000 + 31536000) p3 tk3 1 7 = Inr (p4, tk4)
   \<and> balances (tk4 7) 1 = 0
   \<and> balances (tk4 7) 100 = 1039
   \<and> totalDeposits p4 7 = 1039
   \<and> \<not> active (userLoans p4 1 7)
   \<and> repay 100 (5000 + 31536000) p3 (tk3(7 := (tk3 7)\<lparr>balances := (balances (tk3 7))(1 := 438)\<rparr>)) 1 7
        = Inl (Revert ''Insufficient balance for repayment'')"
proof -
  from scenario_A_borrowed obtain p1 p2 tk2 p3 tk3 where
    s: "addSupportedToken (AIFiLendingPool_constructor 9 8) 9 7 = Inr p1"
       "deposit 100 p1 scenA_tokens 1 7 1000 = Inr (p2, tk2)"
       "\<not> active (userLoans p2 1 7)"
       "borrow 100 5000 p2 tk2 1 7 400 = Inr (p3, tk3)"
       "supportedTokens p3 7"
    and p3: "totalDeposits p3 7 = 600"
       "userLoans p3 1 7 = \<lparr>amount = 400, timestamp = 5000, riskTier = MEDIUM, active = True\<rparr>"
       "interestRates p3 MEDIUM = 1000"
    and tk3: "balances (tk3 7) = (\<lambda>_. 0)(1 := 439, 100 := 600)" "allowances (tk3 7) 1 100 = 439"
    by blast
  have i: "calculateInterest p3 400 31536000 MEDIUM = Inr 39"
    using p3(3) by (rule interest_400_one_year)
  define p4 where "p4 = p3\<lparr>totalDeposits := (totalDeposits p3)(7 := 1039),
       userLoans := (userLoans p3)(1 := (userLoans p3 1)(7 := (userLoans p3 1 7)\<lparr>active := False\<rparr>))\<rparr>"
  define tk4 where "tk4 = tk3(7 := (tk3 7)\<lparr>allowances := (allowances (tk3 7))(1 := (allowances (tk3 7) 1)(100 := 0)),
       balances := (\<lambda>_. 0)(1 := 0, 100 := 1039)\<rparr>)"
  have r: "repay 100 (5000 + 31536000) p3 tk3 1 7 = Inr (p4, tk4)"
    unfolding repay_def
    by (simp add: p3 tk3 i p4_def tk4_def Let_def bind_def require_def sub_def add_def MAX_UINT256_def
          balanceOf_def safeTransferFrom_def spendAllowance_def transfer_internal_def fun_upd_twist)
  have f: "repay 100 (5000 + 31536000) p3 (tk3(7 := (tk3 7)\<lparr>balances := (balances (tk3 7))(1 := 438)\<rparr>)) 1 7
        = Inl (Revert ''Insufficient balance for repayment'')"
    unfolding repay_def
    by (simp add: p3 tk3 i Let_def bind_def require_def sub_def add_def MAX_UINT256_def balanceOf_def)
  have "balances (tk3 7) 1 = 439" "balances (tk4 7) 1 = 0" "balances (tk4 7) 100 = 1039"
       "totalDeposits p4 7 = 1039" "\<not> active (userLoans p4 1 7)"
    by (simp_all add: tk3 tk4_def p4_def p3)
  then show ?thesis using s p3 r f by blast
qed

lemma scenario_withdrawn:
  "\<exists>p tk. lp_run 100 (AIFiLendingPool_constructor 9 8, scenA_tokens) deposit_withdraw_txs = (p, tk)
     \<and> totalDeposits p 7 = 700 \<and> userDeposits p 1 7 = 700"
proof -
  from scenario_A_deposited obtain p1 p2 tk2 where
    s: "addSupportedToken (AIFiLendingPool_constructor 9 8) 9 7 = Inr p1"
       "deposit 100 p1 scenA_tokens 1 7 1000 = Inr (p2, tk2)"
    and p2: "userDeposits p2 = (\<lambda>_ _. 0)(1 := (\<lambda>_. 0)(7 := 1000))" "totalDeposits p2 7 = 1000"
    and tk2: "balances (tk2 7) = (\<lambda>_. 0)(1 := 39, 100 := 1000)"
    by blast
  define p3 where "p3 = p2\<lparr>userDeposits := (userDeposits p2)(1 := (userDeposits p2 1)(7 := 700)),
                             totalDeposits := (totalDeposits p2)(7 := 700)\<rparr>"
  define tk3 :: tokens where "tk3 = tk2(7 := (tk2 7)\<lparr>balances := (\<lambda>_. 0)(1 := 339, 100 := 700)\<rparr>)"
  have 3: "withdraw 100 p2 tk2 1 7 300 = Inr (p3, tk3)"
    unfolding withdraw_def
    by (simp add: p2 tk2 p3_def tk3_def Let_def bind_def require_def sub_def
          safeTransfer_def transfer_internal_def fun_upd_twist)
  have "lp_run 100 (AIFiLendingPool_constructor 9 8, scenA_tokens) deposit_withdraw_txs = (p3, tk3)"
    by (simp add: lp_run_def deposit_withdraw_txs_def lp_exec_def s 3 bind_def)
  moreover have "totalDeposits p3 7 = 700" "userDeposits p3 1 7 = 700" by (simp_all add: p3_def)
  ultimately show ?thesis by blast
qed

lemma scenario_borrowed_run:
  "\<exists>p tk. lp_run 100 (AIFiLendingPool_constructor 9 8, scenA_tokens) deposit_borrow_txs = (p, tk)
     \<and> totalDeposits p 7 = 600 \<and> userDeposits p = (\<lambda>_ _. 0)(1 := (\<lambda>_. 0)(7 := 1000))"
proof -
  from scenario_A_borrowed obtain p1 p2 tk2 p3 tk3 where
    s: "addSupportedToken (AIFiLendingPool_constructor 9 8) 9 7 = Inr p1"
       "deposit 100 p1 scenA_tokens 1 7 1000 = Inr (p2, tk2)"
       "borrow 100 5000 p2 tk2 1 7 400 = Inr (p3, tk3)"
    and p3: "userDeposits p3 = (\<lambda>_ _. 0)(1 := (\<lambda>_. 0)(7 := 1000))" "totalDeposits p3 7 = 600"
    by blast
  have "lp_run 100 (AIFiLendingPool_constructor 9 8, scenA_tokens) deposit_borrow_txs = (p3, tk3)"
    by (simp add: lp_run_def deposit_borrow_txs_def lp_exec_def s bind_def)
  then show ?thesis using p3 by blast
qed

lemma scenario_repaid_run:
  "\<exists>p4 tk4. lp_run 100 (AIFiLendingPool_constructor 9 8, scenA_tokens) deposit_borrow_repay_txs = (p4, tk4)
     \<and> totalDeposits p4 7 = 1039
     \<and> interest_collected 100 (AIFiLendingPool_constructor 9 8, scenA_tokens) deposit_borrow_repay_txs 7 = 39"
proof -
  from scenario_A_repaid obtain p1 p2 tk2 p3 tk3 p4 tk4 where
    s: "addSupportedToken (AIFiLendingPool_constructor 9 8) 9 7 = Inr p1"
       "deposit 100 p1 scenA_tokens 1 7 1000 = Inr (p2, tk2)"
       "borrow 100 5000 p2 tk2 1 7 400 = Inr (p3, tk3)"
       "repay 100 (5000 + 31536000) p3 tk3 1 7 = Inr (p4, tk4)"
    and l: "userLoans p3 1 7 = \<lparr>amount = 400, timestamp = 5000, riskTier = MEDIUM, active = True\<rparr>"
    and i: "interestRates p3 MEDIUM = 1000"
    and t: "totalDeposits p4 7 = 1039"
    by blast
  note c = interest_400_one_year(1) [OF i]
  have e: "lp_exec 100 (AIFiLendingPool_constructor 9 8, scenA_tokens) (9, 0, AddSupportedToken 7) = (p1, scenA_tokens)"
     "lp_exec 100 (p1, scenA_tokens) (1, 0, Deposit 7 1000) = (p2, tk2)"
     "lp_exec 100 (p2, tk2) (1, 5000, Borrow 7 400) = (p3, tk3)"
     "lp_exec 100 (p3, tk3) (1, 5000 + 31536000, Repay 7) = (p4, tk4)"
    using s by (simp_all add: lp_exec_def bind_def)
  have r: "lp_run 100 (AIFiLendingPool_constructor 9 8, scenA_tokens) deposit_borrow_repay_txs = (p4, tk4)"
    using e by (simp add: lp_run_def deposit_borrow_repay_txs_def)
  have "interest_of 100 (p3, tk3) (1, 5000 + 31536000, Repay 7) 7 = 39"
    using s(4) l c by simp
  moreover have "interest_of 100 (AIFiLendingPool_constructor 9 8, scenA_tokens) (9, 0, AddSupportedToken 7) 7 = 0"
    "interest_of 100 (p1, scenA_tokens) (1, 0, Deposit 7 1000) 7 = 0"
    "interest_of 100 (p2, tk2) (1, 5000, Borrow 7 400) 7 = 0"
    by simp_all
  ultimately have "interest_collected 100 (AIFiLendingPool_constructor 9 8, scenA_tokens) deposit_borrow_repay_txs 7 = 39"
    using e by (simp add: deposit_borrow_repay_txs_def del: interest_of.simps)
  with r t show ?thesis by blast
qed

subsection \<open>The claims about the pool\<close>

text \<open>
  Claim C1 as stated fails: after account 1 has deposited 1000 of token 7 and borrowed 400,
  the deposit balances still add up to 1000 while \<open>totalDeposits\<close> has dropped to 600.
\<close>

theorem conservation_counterexample:
  "sum_balances (fst (lp_run 100 (AIFiLendingPool_constructor 9 8, scenA_tokens) deposit_borrow_txs)) 7
     \<noteq> totalDeposits (fst (lp_run 100 (AIFiLendingPool_constructor 9 8, scenA_tokens) deposit_borrow_txs)) 7"
proof -
  from scenario_borrowed_run obtain p tk where
    r: "lp_run 100 (AIFiLendingPool_constructor 9 8, scenA_tokens) deposit_borrow_txs = (p, tk)"
    and t: "totalDeposits p 7 = 600" and u: "userDeposits p = (\<lambda>_ _. 0)(1 := (\<lambda>_. 0)(7 := 1000))"
    by blast
  have f: "(\<lambda>w. userDeposits p w 7) = (\<lambda>_. 0)(1 := 1000)"
    by (auto simp add: u fun_eq_iff)
  have "sum_balances p 7 = sum ((\<lambda>_. 0)(1 := 1000) :: address \<Rightarrow> nat) UNIV"
    unfolding sum_balances_def by (simp only: f)
  also have "\<dots> = 1000"
    by (simp only: sum_upd_nat) simp
  finally show ?thesis by (simp add: r t)
qed

text \<open>
  Claim C1, amended. \<open>borrow\<close> lowers \<open>totalDeposits\<close> by exactly the amount lent and
  \<open>repay\<close> raises it by exactly principal plus interest; neither touches a deposit balance.
  So after any sequence of transactions to the pool, starting from the empty ledger, the
  deposit balances of a token plus the interest that its repays have paid in add up to
  exactly its \<open>totalDeposits\<close> plus the principal of its active loans. As long as the
  sequence has no \<open>repay\<close> in it the balances add up to \<open>totalDeposits\<close> plus the
  principal on loan, and as long as it has neither \<open>borrow\<close> nor \<open>repay\<close> to
  \<open>totalDeposits\<close> itself.
\<close>

theorem conservation_up_to_loans:
  "sum_balances (fst (lp_run this (AIFiLendingPool_constructor deployer orc, tk) txs)) token
       + interest_collected this (AIFiLendingPool_constructor deployer orc, tk) txs token
     = totalDeposits (fst (lp_run this (AIFiLendingPool_constructor deployer orc, tk) txs)) token
       + outstanding (fst (lp_run this (AIFiLendingPool_constructor deployer orc, tk) txs)) token
   \<and> ((\<forall>x\<in>set txs. \<not> is_repay x) \<longrightarrow>
        sum_balances (fst (lp_run this (AIFiLendingPool_constructor deployer orc, tk) txs)) token
          = totalDeposits (fst (lp_run this (AIFiLendingPool_constructor deployer orc, tk) txs)) token
            + outstanding (fst (lp_run this (AIFiLendingPool_constructor deployer orc, tk) txs)) token)
   \<and> ((\<forall>x\<in>set txs. \<not> is_loan_call x) \<longrightarrow>
        sum_balances (fst (lp_run this (AIFiLendingPool_constructor deployer orc, tk) txs)) token
          = totalDeposits (fst (lp_run this (AIFiLendingPool_constructor deployer orc, tk) txs)) token)
   \<and> (borrow this now p tk0 u token amt = Inr (p', tk')
        \<longrightarrow> totalDeposits p' token + amt = totalDeposits p token \<and> userDeposits p' = userDeposits p)
   \<and> (repay this now p tk0 u token = Inr (p', tk')
        \<longrightarrow> (\<exists>interest. calculateInterest p (amount (userLoans p u token))
                              (now - timestamp (userLoans p u token)) (riskTier (userLoans p u token))
                            = Inr interest
                        \<and> totalDeposits p' token
                            = totalDeposits p token + amount (userLoans p u token) + interest)
          \<and> userDeposits p' = userDeposits p)"
proof -
  let ?w = "(AIFiLendingPool_constructor deployer orc, tk)"
  have 0: "sum_balances (fst ?w) token + 0 = totalDeposits (fst ?w) token + outstanding (fst ?w) token"
    by (simp add: constructor_empty)
  from lp_run_exact [OF 0, of this txs]
  have 1: "sum_balances (fst (lp_run this ?w txs)) token + interest_collected this ?w txs token
     = totalDeposits (fst (lp_run this ?w txs)) token + outstanding (fst (lp_run this ?w txs)) token"
    by simp
  have 2: "(\<forall>x\<in>set txs. \<not> is_repay x) \<longrightarrow>
        sum_balances (fst (lp_run this ?w txs)) token
          = totalDeposits (fst (lp_run this ?w txs)) token + outstanding (fst (lp_run this ?w txs)) token"
    using 1 interest_collected_no_repay [of txs this ?w token] by auto
  have 3: "(\<forall>x\<in>set txs. \<not> is_loan_call x) \<longrightarrow>
        sum_balances (fst (lp_run this ?w txs)) token = totalDeposits (fst (lp_run this ?w txs)) token"
    using lp_run_equal [of ?w token txs this] by (simp add: constructor_empty)
  have 4: "borrow this now p tk0 u token amt = Inr (p', tk')
        \<longrightarrow> totalDeposits p' token + amt = totalDeposits p token \<and> userDeposits p' = userDeposits p"
    using borrow_Inr [of this now p tk0 u token amt p' tk'] by auto
  have 5: "repay this now p tk0 u token = Inr (p', tk')
        \<longrightarrow> (\<exists>interest. calculateInterest p (amount (userLoans p u token))
                              (now - timestamp (userLoans p u token)) (riskTier (userLoans p u token))
                            = Inr interest
                        \<and> totalDeposits p' token
                            = totalDeposits p token + amount (userLoans p u token) + interest)
          \<and> userDeposits p' = userDeposits p"
    using repay_Inr [of this now p tk0 u token p' tk'] by auto
  from 1 2 3 4 5 show ?thesis by blast
qed

theorem conservation_up_to_loans_witness:
  "sum_balances (fst (lp_run 100 (AIFiLendingPool_constructor 9 8, scenA_tokens) deposit_withdraw_txs)) 7
       = totalDeposits (fst (lp_run 100 (AIFiLendingPool_constructor 9 8, scenA_tokens) deposit_withdraw_txs)) 7
   \<and> totalDeposits (fst (lp_run 100 (AIFiLendingPool_constructor 9 8, scenA_tokens) deposit_withdraw_txs)) 7 = 700
   \<and> sum_balances (fst (lp_run 100 (AIFiLendingPool_constructor 9 8, scenA_tokens) deposit_borrow_txs)) 7
       = totalDeposits (fst (lp_run 100 (AIFiLendingPool_constructor 9 8, scenA_tokens) deposit_borrow_txs)) 7
         + outstanding (fst (lp_run 100 (AIFiLendingPool_constructor 9 8, scenA_tokens) deposit_borrow_txs)) 7
   \<and> totalDeposits (fst (lp_run 100 (AIFiLendingPool_constructor 9 8, scenA_tokens) deposit_borrow_txs)) 7 = 600
   \<and> sum_balances (fst (lp_run 100 (AIFiLendingPool_constructor 9 8, scenA_tokens) deposit_borrow_repay_txs)) 7 + 39
       = totalDeposits (fst (lp_run 100 (AIFiLendingPool_constructor 9 8, scenA_tokens) deposit_borrow_repay_txs)) 7
         + outstanding (fst (lp_run 100 (AIFiLendingPool_constructor 9 8, scenA_tokens) deposit_borrow_repay_txs)) 7
   \<and> totalDeposits (fst (lp_run 100 (AIFiLendingPool_constructor 9 8, scenA_tokens) deposit_borrow_repay_txs)) 7 = 1039
   \<and> interest_collected 100 (AIFiLendingPool_constructor 9 8, scenA_tokens) deposit_borrow_repay_txs 7 = 39
   \<and> (\<exists>p2 tk2 p3 tk3 p4 tk4.
         borrow 100 5000 p2 tk2 1 7 400 = Inr (p3, tk3)
       \<and> totalDeposits p3 7 + 400 = totalDeposits p2 7
       \<and> userDeposits p3 = userDeposits p2
       \<and> repay 100 (5000 + 31536000) p3 tk3 1 7 = Inr (p4, tk4)
       \<and> totalDeposits p4 7 = totalDeposits p3 7 + 400 + 39
       \<and> userDeposits p4 = userDeposits p3)"
proof -
  let ?w = "(AIFiLendingPool_constructor 9 8, scenA_tokens)"
  have h1: "\<forall>x\<in>set deposit_withdraw_txs. \<not> is_loan_call x"
    by (simp add: deposit_withdraw_txs_def)
  have h2: "\<forall>x\<in>set deposit_borrow_txs. \<not> is_repay x"
    by (simp add: deposit_borrow_txs_def)
  from scenario_withdrawn obtain pw tkw where
    rw: "lp_run 100 ?w deposit_withdraw_txs = (pw, tkw)" and tw: "totalDeposits pw 7 = 700" by blast
  from scenario_borrowed_run obtain pb tkb where
    rb: "lp_run 100 ?w deposit_borrow_txs = (pb, tkb)" and tb: "totalDeposits pb 7 = 600" by blast
  from scenario_repaid_run obtain pr tkr where
    rr: "lp_run 100 ?w deposit_borrow_repay_txs = (pr, tkr)" and tr: "totalDeposits pr 7 = 1039"
    and ic: "interest_collected 100 ?w deposit_borrow_repay_txs 7 = 39" by blast
  from scenario_A_repaid obtain p1 :: LendingPool and p2 tk2 p3 tk3 p4 tk4 where
    b: "borrow 100 5000 p2 tk2 1 7 400 = Inr (p3, tk3)"
    and r: "repay 100 (5000 + 31536000) p3 tk3 1 7 = Inr (p4, tk4)"
    and l: "userLoans p3 1 7 = \<lparr>amount = 400, timestamp = 5000, riskTier = MEDIUM, active = True\<rparr>"
    and i: "interestRates p3 MEDIUM = 1000"
    by blast
  note c = interest_400_one_year(1) [OF i]
  from conservation_up_to_loans [of 100 9 8 scenA_tokens deposit_withdraw_txs 7] h1
  have 1: "sum_balances (fst (lp_run 100 ?w deposit_withdraw_txs)) 7
             = totalDeposits (fst (lp_run 100 ?w deposit_withdraw_txs)) 7" by blast
  from conservation_up_to_loans [of 100 9 8 scenA_tokens deposit_borrow_txs 7] h2
  have 2: "sum_balances (fst (lp_run 100 ?w deposit_borrow_txs)) 7
             = totalDeposits (fst (lp_run 100 ?w deposit_borrow_txs)) 7
               + outstanding (fst (lp_run 100 ?w deposit_borrow_txs)) 7" by blast
  from conservation_up_to_loans [of 100 9 8 scenA_tokens deposit_borrow_repay_txs 7] ic
  have 3: "sum_balances (fst (lp_run 100 ?w deposit_borrow_repay_txs)) 7 + 39
             = totalDeposits (fst (lp_run 100 ?w deposit_borrow_repay_txs)) 7
               + outstanding (fst (lp_run 100 ?w deposit_borrow_repay_txs)) 7" by simp
  from conservation_up_to_loans [where this = 100 and now = 5000 and p = p2 and ?tk0.0 = tk2 and u = 1
         and token = 7 and amt = 400 and p' = p3 and tk' = tk3] b
  have 4: "totalDeposits p3 7 + 400 = totalDeposits p2 7" "userDeposits p3 = userDeposits p2" by blast+
  from conservation_up_to_loans [where this = 100 and now = "5000 + 31536000" and p = p3 and ?tk0.0 = tk3
         and u = 1 and token = 7 and p' = p4 and tk' = tk4] r
  obtain interest where
    ci: "calculateInterest p3 (amount (userLoans p3 1 7)) (5000 + 31536000 - timestamp (userLoans p3 1 7))
           (riskTier (userLoans p3 1 7)) = Inr interest"
    and t4: "totalDeposits p4 7 = totalDeposits p3 7 + amount (userLoans p3 1 7) + interest"
    and u4: "userDeposits p4 = userDeposits p3"
    by blast
  from ci l c have "interest = 39" by simp
  with t4 l have 5: "totalDeposits p4 7 = totalDeposits p3 7 + 400 + 39" by simp
  have 6: "\<exists>p2 tk2 p3 tk3 p4 tk4.
         borrow 100 5000 p2 tk2 1 7 400 = Inr (p3, tk3)
       \<and> totalDeposits p3 7 + 400 = totalDeposits p2 7
       \<and> userDeposits p3 = userDeposits p2
       \<and> repay 100 (5000 + 31536000) p3 tk3 1 7 = Inr (p4, tk4)
       \<and> totalDeposits p4 7 = totalDeposits p3 7 + 400 + 39
       \<and> userDeposits p4 = userDeposits p3"
    using b 4 r 5 u4 by blast
  show ?thesis
    using 1 2 3 6 ic by (simp add: rw tw rb tb rr tr)
qed

text \<open>
  Claim C2, where the code departs from it. Account 1 deposits 1000 and borrows 400 at
  time 5000; the loan is \<open>MEDIUM\<close> at 1000 basis points. One year (31536000 seconds)
  later \<open>calculateInterest\<close> gives 39, not 40: the per-second rate
  \<open>1000 * 10^18 div 31536000 div 10000 = 3170979198\<close> is cut off before it is multiplied by
  the amount and the time (with amounts in 18-decimal units the interest on
  \<open>400 * 10^18\<close> is \<open>39999999995251200000\<close>, short of \<open>40 * 10^18\<close>). \<open>repay\<close> goes
  through for the account holding 439, takes 439 and leaves \<open>totalDeposits\<close> at 1039;
  with 438 it reverts.
\<close>

theorem scenario_A_repays_439:
  "\<exists>p1 p2 tk2 p3 tk3 p4 tk4.
     addSupportedToken (AIFiLendingPool_constructor 9 8) 9 7 = Inr p1
   \<and> deposit 100 p1 scenA_tokens 1 7 1000 = Inr (p2, tk2)
   \<and> borrow 100 5000 p2 tk2 1 7 400 = Inr (p3, tk3)
   \<and> riskTier (userLoans p3 1 7) = MEDIUM \<and> interestRates p3 MEDIUM = 1000
   \<and> calculateInterest p3 400 31536000 MEDIUM = Inr 39
   \<and> calculateInterest p3 (400 * 10 ^ 18) 31536000 MEDIUM = Inr 39999999995251200000
   \<and> balanceOf tk3 7 1 = 439
   \<and> repay 100 (5000 + 31536000) p3 tk3 1 7 = Inr (p4, tk4)
   \<and> balanceOf tk4 7 1 = 0
   \<and> balanceOf tk4 7 100 = 1039
   \<and> totalDeposits p4 7 = 1039
   \<and> repay 100 (5000 + 31536000) p3 (tk3(7 := (tk3 7)\<lparr>balances := (balances (tk3 7))(1 := 438)\<rparr>)) 1 7
        = Inl (Revert ''Insufficient balance for repayment'')"
proof -
  from scenario_A_repaid obtain p1 p2 tk2 p3 tk3 p4 tk4 where
    s: "addSupportedToken (AIFiLendingPool_constructor 9 8) 9 7 = Inr p1"
       "deposit 100 p1 scenA_tokens 1 7 1000 = Inr (p2, tk2)"
       "borrow 100 5000 p2 tk2 1 7 400 = Inr (p3, tk3)"
       "repay 100 (5000 + 31536000) p3 tk3 1 7 = Inr (p4, tk4)"
       "repay 100 (5000 + 31536000) p3 (tk3(7 := (tk3 7)\<lparr>balances := (balances (tk3 7))(1 := 438)\<rparr>)) 1 7
        = Inl (Revert ''Insufficient balance for repayment'')"
    and l: "userLoans p3 1 7 = \<lparr>amount = 400, timestamp = 5000, riskTier = MEDIUM, active = True\<rparr>"
    and i: "interestRates p3 MEDIUM = 1000"
    and b: "balances (tk3 7) 1 = 439" "balances (tk4 7) 1 = 0" "balances (tk4 7) 100 = 1039"
    and t: "totalDeposits p4 7 = 1039"
    by blast
  have "riskTier (userLoans p3 1 7) = MEDIUM" by (simp add: l)
  moreover note interest_400_one_year [OF i]
  moreover have "balanceOf tk3 7 1 = 439" "balanceOf tk4 7 1 = 0" "balanceOf tk4 7 100 = 1039"
    by (simp_all add: balanceOf_def b)
  ultimately show ?thesis using s i t by blast
qed

text \<open>
  Claim C4. The active flag of the loan of account \<open>u\<close> on token \<open>t\<close> is switched on by
  nothing but a \<open>borrow\<close> of \<open>u\<close> on \<open>t\<close>, and off by nothing but a \<open>repay\<close> of \<open>u\<close> on
  \<open>t\<close>; a loan that stays active is the same record (there is one record per account and
  token). A \<open>borrow\<close> while the loan is active never succeeds, and where the request is
  otherwise valid it reverts with \<open>Existing loan active\<close>; a \<open>repay\<close> without an active
  loan reverts with \<open>No active loan\<close>; both are \<open>StateError\<close>s. A successful \<open>borrow\<close> starts
  from no loan and ends with an active one, a successful \<open>repay\<close> the other way round.
\<close>

theorem loan_lifecycle:
  "(\<not> active (userLoans p u t) \<and> active (userLoans (fst (lp_exec this (p, tk) (sender, now, c))) u t)
       \<longrightarrow> sender = u \<and> (\<exists>a. c = Borrow t a))
   \<and> (active (userLoans p u t) \<and> \<not> active (userLoans (fst (lp_exec this (p, tk) (sender, now, c))) u t)
       \<longrightarrow> sender = u \<and> c = Repay t)
   \<and> (active (userLoans p u t) \<and> active (userLoans (fst (lp_exec this (p, tk) (sender, now, c))) u t)
       \<longrightarrow> userLoans (fst (lp_exec this (p, tk) (sender, now, c))) u t = userLoans p u t)
   \<and> (active (userLoans p u t) \<longrightarrow>
         (\<exists>e. borrow this now p tk u t amt = Inl e)
       \<and> (supportedTokens p t \<and> 0 < amt \<and> amt \<le> totalDeposits p t
            \<longrightarrow> borrow this now p tk u t amt = Inl (Revert ''Existing loan active'')))
   \<and> (\<not> active (userLoans p u t) \<longrightarrow> repay this now p tk u t = Inl (Revert ''No active loan''))
   \<and> error_kind_of (Revert ''Existing loan active'') = StateError
   \<and> error_kind_of (Revert ''No active loan'') = StateError
   \<and> (borrow this now p tk u t amt = Inr (p2, tk2)
         \<longrightarrow> \<not> active (userLoans p u t) \<and> active (userLoans p2 u t))
   \<and> (repay this now p tk u t = Inr (p2, tk2)
         \<longrightarrow> active (userLoans p u t) \<and> \<not> active (userLoans p2 u t))"
proof -
  have k: "error_kind_of (Revert ''Existing loan active'') = StateError"
          "error_kind_of (Revert ''No active loan'') = StateError"
    by (simp_all add: error_kind_of_def)
  have b: "borrow this now p tk u t amt = Inr (p2, tk2)
         \<longrightarrow> \<not> active (userLoans p u t) \<and> active (userLoans p2 u t)"
    using borrow_Inr [of this now p tk u t amt p2 tk2] by auto
  have r: "repay this now p tk u t = Inr (p2, tk2)
         \<longrightarrow> active (userLoans p u t) \<and> \<not> active (userLoans p2 u t)"
    using repay_Inr [of this now p tk u t p2 tk2] by auto
  have a: "active (userLoans p u t) \<longrightarrow>
         (\<exists>e. borrow this now p tk u t amt = Inl e)
       \<and> (supportedTokens p t \<and> 0 < amt \<and> amt \<le> totalDeposits p t
            \<longrightarrow> borrow this now p tk u t amt = Inl (Revert ''Existing loan active''))"
    by (simp add: borrow_active)
  have n: "\<not> active (userLoans p u t) \<longrightarrow> repay this now p tk u t = Inl (Revert ''No active loan'')"
    by (simp add: repay_inactive)
  show ?thesis
    using lp_exec_userLoans [of p u t this tk sender now c] k b r a n by blast
qed

theorem loan_lifecycle_witness:
  "\<exists>p2 tk2 p3 tk3 p4 tk4.
     \<not> active (userLoans p2 1 7)
   \<and> repay 100 6000 p2 tk2 1 7 = Inl (Revert ''No active loan'')
   \<and> borrow 100 5000 p2 tk2 1 7 400 = Inr (p3, tk3)
   \<and> active (userLoans p3 1 7)
   \<and> supportedTokens p3 7 \<and> (0::nat) < 100 \<and> 100 \<le> totalDeposits p3 7
   \<and> borrow 100 6000 p3 tk3 1 7 100 = Inl (Revert ''Existing loan active'')
   \<and> error_kind_of (Revert ''Existing loan active'') = StateError
   \<and> repay 100 (5000 + 31536000) p3 tk3 1 7 = Inr (p4, tk4)
   \<and> \<not> active (userLoans p4 1 7)"
proof -
  from scenario_A_repaid obtain p1 :: LendingPool and p2 tk2 p3 tk3 p4 tk4 where
    n: "\<not> active (userLoans p2 1 7)"
    and b: "borrow 100 5000 p2 tk2 1 7 400 = Inr (p3, tk3)"
    and p3: "supportedTokens p3 7" "totalDeposits p3 7 = 600"
    and r: "repay 100 (5000 + 31536000) p3 tk3 1 7 = Inr (p4, tk4)"
    by blast
  from loan_lifecycle [where p = p2 and u = 1 and t = 7 and this = 100 and tk = tk2 and now = 6000] n
  have 1: "repay 100 6000 p2 tk2 1 7 = Inl (Revert ''No active loan'')" by blast
  from loan_lifecycle [where p = p2 and u = 1 and t = 7 and this = 100 and tk = tk2 and now = 5000
         and amt = 400 and ?p2.0 = p3 and ?tk2.0 = tk3] b
  have 2: "active (userLoans p3 1 7)" by blast
  have 3: "supportedTokens p3 7 \<and> (0::nat) < 100 \<and> 100 \<le> totalDeposits p3 7"
    using p3 by simp
  from loan_lifecycle [where p = p3 and u = 1 and t = 7 and this = 100 and tk = tk3 and now = 6000
         and amt = 100] 2 3
  have 4: "borrow 100 6000 p3 tk3 1 7 100 = Inl (Revert ''Existing loan active'')"
    and 5: "error_kind_of (Revert ''Existing loan active'') = StateError" by blast+
  from loan_lifecycle [where p = p3 and u = 1 and t = 7 and this = 100 and tk = tk3
         and now = "5000 + 31536000" and ?p2.0 = p4 and ?tk2.0 = tk4] r
  have 6: "\<not> active (userLoans p4 1 7)" by blast
  show ?thesis using n 1 b 2 3 4 5 r 6 by blast
qed

section \<open>The remittance contract\<close>

subsection \<open>What a successful call did\<close>

lemma initiateTransfer_Inr:
  assumes "initiateTransfer this now r tk sender token amt recipient origin destination = Inr (i, r', tk')"
  shows "\<exists>fee0. i = transferCounter r
     \<and> r' = r\<lparr>transferCounter := transferCounter r + 1,
              transfers := (transfers r)(transferCounter r :=
                 \<lparr>tr_id = transferCounter r, tr_sender = sender, recipientId = recipient,
                  tokenAddress = token, tr_amount = amt, fee = fee0, originCountry = origin,
                  destinationCountry = destination, tr_timestamp = now, status = PENDING\<rparr>),
              userTransfers := (userTransfers r)(sender := userTransfers r sender @ [transferCounter r])\<rparr>"
  using assms
  by (auto simp add: initiateTransfer_def require_def bind_def add_def Let_def split: if_splits sum.splits)

lemma completeTransfer_Inr:
  assumes "completeTransfer r sender i = Inr r'"
  shows "r' = r\<lparr>transfers := (transfers r)(i := (transfers r i)\<lparr>status := COMPLETED\<rparr>)\<rparr>
     \<and> tr_id (transfers r i) = i \<and> status (transfers r i) = PENDING \<and> sender = rm_owner r"
  using assms
  by (auto simp add: completeTransfer_def onlyOwner_def require_def Let_def split: if_splits)

lemma cancelTransfer_Inr:
  assumes "cancelTransfer this r tk sender i = Inr (r', tk')"
  shows "r' = r\<lparr>transfers := (transfers r)(i := (transfers r i)\<lparr>status := CANCELLED\<rparr>)\<rparr>
     \<and> tr_id (transfers r i) = i \<and> status (transfers r i) = PENDING
     \<and> (sender = tr_sender (transfers r i) \<or> sender = rm_owner r)"
  using assms
  by (auto simp add: cancelTransfer_def require_def bind_def Let_def split: if_splits sum.splits)

lemma rm_admin_Inr:
  assumes "c = RmAddSupportedToken a \<or> c = RmRemoveSupportedToken a \<or> c = UpdateCorridorFee o1 d1 n
           \<or> c = UpdateDefaultFee n \<or> c = UpdateTransferLimits lo hi \<or> c = UpdateTreasury a"
    and "rm_call this (r, tk) (sender, now, c) = Inr (r', tk')"
  shows "transfers r' = transfers r \<and> transferCounter r' = transferCounter r"
  using assms
  by (auto simp add: rm_addSupportedToken_def rm_removeSupportedToken_def updateCorridorFee_def
        updateDefaultFee_def updateTransferLimits_def updateTreasury_def
        onlyOwner_def require_def bind_def split: if_splits)

subsection \<open>The transfer table\<close>

lemma rm_inv_cong:
  assumes "transfers r' = transfers r" "transferCounter r' = transferCounter r" "rm_inv r"
  shows "rm_inv r'"
  using assms by (simp add: rm_inv_def)

lemma rm_inv_existing:
  assumes "rm_inv r" and "tr_id (transfers r i) = i" and "status (transfers r i) = PENDING"
  shows "i = 0 \<or> i < transferCounter r"
proof (rule ccontr)
  assume "\<not> (i = 0 \<or> i < transferCounter r)"
  then have "i \<noteq> 0" "transferCounter r \<le> i" by simp_all
  with assms(1) have "transfers r i = empty_Transfer" by (simp add: rm_inv_def)
  with assms(2) \<open>i \<noteq> 0\<close> show False by (simp add: empty_Transfer_def)
qed

lemma rm_inv_set_status:
  assumes "rm_inv r" and "tr_id (transfers r i) = i" and "status (transfers r i) = PENDING"
  shows "rm_inv (r\<lparr>transfers := (transfers r)(i := (transfers r i)\<lparr>status := s\<rparr>)\<rparr>)"
proof -
  from rm_inv_existing [OF assms] assms(1) have "i < transferCounter r"
    by (auto simp add: rm_inv_def)
  with assms show ?thesis by (auto simp add: rm_inv_def)
qed

lemma rm_call_terminal:
  assumes "rm_call this (r, tk) (sender, now, c) = Inr (r', tk')" and "rm_inv r"
  shows "rm_inv r' \<and> (status (transfers r i) \<noteq> PENDING \<longrightarrow> transfers r' i = transfers r i)"
proof (cases c)
  case (InitiateTransfer token amt recipient origin destination)
  with assms(1) obtain k where
    "initiateTransfer this now r tk sender token amt recipient origin destination = Inr (k, r', tk')"
    by (auto simp add: bind_def split: sum.splits)
  from initiateTransfer_Inr [OF this] obtain fee0 where
    r': "r' = r\<lparr>transferCounter := transferCounter r + 1,
              transfers := (transfers r)(transferCounter r :=
                 \<lparr>tr_id = transferCounter r, tr_sender = sender, recipientId = recipient,
                  tokenAddress = token, tr_amount = amt, fee = fee0, originCountry = origin,
                  destinationCountry = destination, tr_timestamp = now, status = PENDING\<rparr>),
              userTransfers := (userTransfers r)(sender := userTransfers r sender @ [transferCounter r])\<rparr>"
    by blast
  from assms(2) have e: "transfers r (transferCounter r) = empty_Transfer"
    by (simp add: rm_inv_def)
  have 1: "rm_inv r'" using assms(2) by (auto simp add: r' rm_inv_def)
  have 2: "status (transfers r i) \<noteq> PENDING \<longrightarrow> transfers r' i = transfers r i"
    using e by (auto simp add: r' empty_Transfer_def)
  from 1 2 show ?thesis by simp
next
  case (CompleteTransfer k)
  with assms(1) have "completeTransfer r sender k = Inr r'"
    by (auto simp add: bind_def split: sum.splits)
  from completeTransfer_Inr [OF this] have
    r': "r' = r\<lparr>transfers := (transfers r)(k := (transfers r k)\<lparr>status := COMPLETED\<rparr>)\<rparr>"
    and k: "tr_id (transfers r k) = k" "status (transfers r k) = PENDING" by simp_all
  from rm_inv_set_status [OF assms(2) k] have "rm_inv r'" by (simp add: r')
  moreover have "status (transfers r i) \<noteq> PENDING \<longrightarrow> transfers r' i = transfers r i"
    using k by (auto simp add: r')
  ultimately show ?thesis by simp
next
  case (CancelTransfer k)
  with assms(1) have "cancelTransfer this r tk sender k = Inr (r', tk')" by simp
  from cancelTransfer_Inr [OF this] have
    r': "r' = r\<lparr>transfers := (transfers r)(k := (transfers r k)\<lparr>status := CANCELLED\<rparr>)\<rparr>"
    and k: "tr_id (transfers r k) = k" "status (transfers r k) = PENDING" by simp_all
  from rm_inv_set_status [OF assms(2) k] have "rm_inv r'" by (simp add: r')
  moreover have "status (transfers r i) \<noteq> PENDING \<longrightarrow> transfers r' i = transfers r i"
    using k by (auto simp add: r')
  ultimately show ?thesis by simp
next
  case (RmAddSupportedToken a)
  from rm_admin_Inr [OF _ assms(1), of a] RmAddSupportedToken rm_inv_cong [of r' r] assms(2)
  show ?thesis by simp
next
  case (RmRemoveSupportedToken a)
  from rm_admin_Inr [OF _ assms(1), of a] RmRemoveSupportedToken rm_inv_cong [of r' r] assms(2)
  show ?thesis by simp
next
  case (UpdateCorridorFee o1 d1 n)
  from rm_admin_Inr [OF _ assms(1), of _ o1 d1 n] UpdateCorridorFee rm_inv_cong [of r' r] assms(2)
  show ?thesis by simp
next
  case (UpdateDefaultFee n)
  from rm_admin_Inr [OF _ assms(1), of _ _ _ n] UpdateDefaultFee rm_inv_cong [of r' r] assms(2)
  show ?thesis by simp
next
  case (UpdateTransferLimits lo hi)
  from rm_admin_Inr [OF _ assms(1), of _ _ _ _ lo hi] UpdateTransferLimits rm_inv_cong [of r' r] assms(2)
  show ?thesis by simp
next
  case (UpdateTreasury a)
  from rm_admin_Inr [OF _ assms(1), of a] UpdateTreasury rm_inv_cong [of r' r] assms(2)
  show ?thesis by simp
qed

lemma rm_exec_terminal:
  assumes "rm_inv (fst w)"
  shows "rm_inv (fst (rm_exec this w tx))
     \<and> (status (transfers (fst w) i) \<noteq> PENDING \<longrightarrow> transfers (fst (rm_exec this w tx)) i = transfers (fst w) i)"
proof (cases "rm_call this w tx")
  case (Inl e)
  then show ?thesis using assms by (simp add: rm_exec_def)
next
  case (Inr w')
  obtain r tk where w: "w = (r, tk)" by (cases w)
  obtain sender now c where tx: "tx = (sender, now, c)" by (cases tx)
  obtain r' tk' where w': "w' = (r', tk')" by (cases w')
  from rm_call_terminal [of this r tk sender now c r' tk' i] Inr assms
  show ?thesis by (simp add: rm_exec_def w tx w')
qed

lemma rm_run_terminal:
  assumes "rm_inv (fst w)"
  shows "rm_inv (fst (rm_run this w txs))
     \<and> (status (transfers (fst w) i) \<noteq> PENDING \<longrightarrow> transfers (fst (rm_run this w txs)) i = transfers (fst w) i)"
  using assms
proof (induction txs arbitrary: w)
  case Nil
  then show ?case by (simp add: rm_run_def)
next
  case (Cons tx txs)
  from rm_exec_terminal [OF Cons.prems, of this tx i]
  have 1: "rm_inv (fst (rm_exec this w tx))"
    and 2: "status (transfers (fst w) i) \<noteq> PENDING \<longrightarrow> transfers (fst (rm_exec this w tx)) i = transfers (fst w) i"
    by simp_all
  from Cons.IH [OF 1] 2 show ?case by (auto simp add: rm_run_def)
qed

lemma rm_constructor_inv:
  assumes "AIFiRemittance_constructor deployer treasury0 = Inr r0"
  shows "rm_inv r0"
  using assms
  by (auto simp add: AIFiRemittance_constructor_def require_def rm_inv_def empty_Transfer_def split: if_splits)

lemma terminal_calls:
  assumes "status (transfers r i) \<noteq> PENDING"
  shows "completeTransfer r sender i =
           (if sender \<noteq> rm_owner r then Inl (Revert ''Ownable: caller is not the owner'')
            else if tr_id (transfers r i) \<noteq> i then Inl (Revert ''Transfer does not exist'')
            else Inl (Revert ''Transfer not pending''))"
    and "cancelTransfer this r tk sender i =
           (if tr_id (transfers r i) \<noteq> i then Inl (Revert ''Transfer does not exist'')
            else Inl (Revert ''Transfer not pending''))"
  using assms
  by (auto simp add: completeTransfer_def cancelTransfer_def onlyOwner_def require_def Let_def)

subsection \<open>Moving tokens\<close>

lemma fee_80_bps: "1000 * u * 80 div 10000 = 8 * (u::nat)"
proof -
  have "1000 * u * 80 = 8 * u * 10000" by simp
  then show ?thesis by (simp only: nonzero_mult_div_cancel_right)
qed

lemma safeTransferFrom_ok:
  assumes "amt \<le> allowances (tk token) from this" and "amt \<le> balances (tk token) from"
    and "from \<noteq> 0" and "to \<noteq> 0" and "from \<noteq> to"
  shows "\<exists>tk'. safeTransferFrom tk token this from to amt = Inr tk'
     \<and> balances (tk' token) = (balances (tk token))(from := balances (tk token) from - amt,
                                                    to := balances (tk token) to + amt)
     \<and> (\<forall>t. t \<noteq> token \<longrightarrow> tk' t = tk t)"
  using assms
  by (auto simp add: safeTransferFrom_def spendAllowance_def transfer_internal_def bind_def require_def Let_def)

lemma safeTransfer_ok:
  assumes "amt \<le> balances (tk token) this" and "this \<noteq> 0" and "to \<noteq> 0" and "this \<noteq> to"
  shows "\<exists>tk'. safeTransfer tk token this to amt = Inr tk'
     \<and> tk' = tk(token := (tk token)\<lparr>balances := (balances (tk token))(this := balances (tk token) this - amt,
                                                    to := balances (tk token) to + amt)\<rparr>)"
  using assms
  by (auto simp add: safeTransfer_def transfer_internal_def bind_def require_def Let_def)

lemma initiateTransfer_ok:
  assumes "rm_supportedTokens r token"
    and "minTransferAmount r \<le> amt" and "amt \<le> maxTransferAmount r"
    and "recipient \<noteq> []" and "origin \<noteq> []" and "destination \<noteq> []"
    and "calculateFee r origin destination amt = Inr f"
    and "amt + f \<le> MAX_UINT256"
    and "amt + f \<le> balanceOf tk token sender"
    and "amt + f \<le> allowances (tk token) sender this"
    and "sender \<noteq> 0" and "this \<noteq> 0" and "treasury r \<noteq> 0"
    and "sender \<noteq> this" and "treasury r \<noteq> this" and "treasury r \<noteq> sender"
    and "transferCounter r < MAX_UINT256"
  shows "\<exists>tk'.
       initiateTransfer this now r tk sender token amt recipient origin destination
         = Inr (transferCounter r,
                r\<lparr>transferCounter := Suc (transferCounter r),
                  transfers := (transfers r)(transferCounter r :=
                    \<lparr>tr_id = transferCounter r, tr_sender = sender, recipientId = recipient,
                     tokenAddress = token, tr_amount = amt, fee = f, originCountry = origin,
                     destinationCountry = destination, tr_timestamp = now, status = PENDING\<rparr>),
                  userTransfers := (userTransfers r)(sender := userTransfers r sender @ [transferCounter r])\<rparr>,
                tk')
     \<and> balances (tk' token) = (balances (tk token))
          (sender := balances (tk token) sender - (amt + f),
           this := balances (tk token) this + amt,
           treasury r := balances (tk token) (treasury r) + f)"
proof -
  have a: "add amt f = Inr (amt + f)"
    using assms(8) by (simp add: add_def)
  have c: "add (transferCounter r) (Suc 0) = Inr (Suc (transferCounter r))"
    using assms(17) by (simp add: add_def)
  from safeTransferFrom_ok [of "amt + f" tk token sender this this] assms(9-12,14)
  obtain tk1 where 1: "safeTransferFrom tk token this sender this (amt + f) = Inr tk1"
    and b1: "balances (tk1 token) = (balances (tk token))(sender := balances (tk token) sender - (amt + f),
                                                    this := balances (tk token) this + (amt + f))"
    by (auto simp add: balanceOf_def)
  have "f \<le> balances (tk1 token) this" by (simp add: b1)
  from safeTransfer_ok [of f tk1 token this "treasury r"] this assms(12,13,15)
  obtain tk2 where 2: "safeTransfer tk1 token this (treasury r) f = Inr tk2"
    and b2: "tk2 = tk1(token := (tk1 token)\<lparr>balances := (balances (tk1 token))(this := balances (tk1 token) this - f,
                                                    treasury r := balances (tk1 token) (treasury r) + f)\<rparr>)"
    by auto
  have i: "initiateTransfer this now r tk sender token amt recipient origin destination
         = Inr (transferCounter r,
                r\<lparr>transferCounter := Suc (transferCounter r),
                  transfers := (transfers r)(transferCounter r :=
                    \<lparr>tr_id = transferCounter r, tr_sender = sender, recipientId = recipient,
                     tokenAddress = token, tr_amount = amt, fee = f, originCountry = origin,
                     destinationCountry = destination, tr_timestamp = now, status = PENDING\<rparr>),
                  userTransfers := (userTransfers r)(sender := userTransfers r sender @ [transferCounter r])\<rparr>,
                tk2)"
    unfolding initiateTransfer_def
    using assms(1-7,9) by (simp add: require_def bind_def a c 1 2 Let_def)
  have "balances (tk2 token) = (balances (tk token))
          (sender := balances (tk token) sender - (amt + f),
           this := balances (tk token) this + amt,
           treasury r := balances (tk token) (treasury r) + f)"
    using assms(14,15,16) by (auto simp add: b2 b1 fun_eq_iff)
  with i show ?thesis by blast
qed

lemma cancelTransfer_ok:
  assumes "tr_id (transfers r i) = i" and "status (transfers r i) = PENDING"
    and "sender = tr_sender (transfers r i) \<or> sender = rm_owner r"
    and "tr_sender (transfers r i) \<noteq> 0" and "this \<noteq> 0" and "tr_sender (transfers r i) \<noteq> this"
    and "tr_amount (transfers r i) \<le> balances (tk (tokenAddress (transfers r i))) this"
  shows "cancelTransfer this r tk sender i =
     Inr (r\<lparr>transfers := (transfers r)(i := (transfers r i)\<lparr>status := CANCELLED\<rparr>)\<rparr>,
          tk(tokenAddress (transfers r i) := (tk (tokenAddress (transfers r i)))\<lparr>balances :=
            (balances (tk (tokenAddress (transfers r i))))
               (this := balances (tk (tokenAddress (transfers r i))) this - tr_amount (transfers r i),
                tr_sender (transfers r i) :=
                   balances (tk (tokenAddress (transfers r i))) (tr_sender (transfers r i))
                     + tr_amount (transfers r i))\<rparr>))"
proof -
  let ?T = "transfers r i"
  from safeTransfer_ok [of "tr_amount ?T" tk "tokenAddress ?T" this "tr_sender ?T"] assms(4-7)
  have 1: "safeTransfer tk (tokenAddress ?T) this (tr_sender ?T) (tr_amount ?T) =
     Inr (tk(tokenAddress ?T := (tk (tokenAddress ?T))\<lparr>balances := (balances (tk (tokenAddress ?T)))
               (this := balances (tk (tokenAddress ?T)) this - tr_amount ?T,
                tr_sender ?T := balances (tk (tokenAddress ?T)) (tr_sender ?T) + tr_amount ?T)\<rparr>))"
    by auto
  show ?thesis
    unfolding cancelTransfer_def
    using assms(1-3) by (auto simp add: require_def bind_def 1 Let_def)
qed

lemma cancelTransfer_effects:
  assumes "tr_id (transfers r i) = i" and "status (transfers r i) = PENDING"
    and "sender = tr_sender (transfers r i) \<or> sender = rm_owner r"
    and "tr_sender (transfers r i) \<noteq> 0" and "this \<noteq> 0" and "tr_sender (transfers r i) \<noteq> this"
    and "tr_amount (transfers r i) \<le> balanceOf tk (tokenAddress (transfers r i)) this"
  shows "\<exists>r' tk'.
       cancelTransfer this r tk sender i = Inr (r', tk')
     \<and> transfers r' i = (transfers r i)\<lparr>status := CANCELLED\<rparr>
     \<and> balanceOf tk' (tokenAddress (transfers r i)) (tr_sender (transfers r i))
         = balanceOf tk (tokenAddress (transfers r i)) (tr_sender (transfers r i)) + tr_amount (transfers r i)
     \<and> balanceOf tk' (tokenAddress (transfers r i)) this
         = balanceOf tk (tokenAddress (transfers r i)) this - tr_amount (transfers r i)
     \<and> (\<forall>a. a \<noteq> tr_sender (transfers r i) \<and> a \<noteq> this
           \<longrightarrow> balanceOf tk' (tokenAddress (transfers r i)) a = balanceOf tk (tokenAddress (transfers r i)) a)
     \<and> cancelTransfer this r' tk' sender' i = Inl (Revert ''Transfer not pending'')
     \<and> error_kind_of (Revert ''Transfer not pending'') = StateError"
proof -
  let ?T = "transfers r i"
  define tk' where "tk' = tk(tokenAddress ?T := (tk (tokenAddress ?T))\<lparr>balances := (balances (tk (tokenAddress ?T)))
               (this := balances (tk (tokenAddress ?T)) this - tr_amount ?T,
                tr_sender ?T := balances (tk (tokenAddress ?T)) (tr_sender ?T) + tr_amount ?T)\<rparr>)"
  define r' where "r' = r\<lparr>transfers := (transfers r)(i := ?T\<lparr>status := CANCELLED\<rparr>)\<rparr>"
  have c: "cancelTransfer this r tk sender i = Inr (r', tk')"
    using cancelTransfer_ok [of r i sender this tk] assms by (simp add: balanceOf_def r'_def tk'_def)
  have s: "transfers r' i = ?T\<lparr>status := CANCELLED\<rparr>" by (simp add: r'_def)
  have 2: "cancelTransfer this r' tk' sender' i = Inl (Revert ''Transfer not pending'')"
    unfolding cancelTransfer_def using assms(1) by (simp add: require_def s Let_def)
  have k: "error_kind_of (Revert ''Transfer not pending'') = StateError"
    by (simp add: error_kind_of_def)
  have "balanceOf tk' (tokenAddress ?T) (tr_sender ?T)
         = balanceOf tk (tokenAddress ?T) (tr_sender ?T) + tr_amount ?T"
       "balanceOf tk' (tokenAddress ?T) this = balanceOf tk (tokenAddress ?T) this - tr_amount ?T"
       "\<forall>a. a \<noteq> tr_sender ?T \<and> a \<noteq> this
           \<longrightarrow> balanceOf tk' (tokenAddress ?T) a = balanceOf tk (tokenAddress ?T) a"
    using assms(6) by (simp_all add: balanceOf_def tk'_def)
  then show ?thesis using c s 2 k by blast
qed

subsection \<open>Escrow\<close>

text \<open>
  The contract never sends a transaction to itself. Then the principal of the pending
  transfers of a token is covered by the contract's balance of that token, and every
  transfer created so far carries its id and a sender that is neither the zero address nor
  the contract.
\<close>

lemma sum_lessThan_upd:
  fixes f :: "nat \<Rightarrow> nat"
  assumes "k < n"
  shows "(\<Sum>i<n. (f(k := v)) i) = (\<Sum>i<n. f i) - f k + v"
proof -
  have k: "k \<in> {..<n}" using assms by simp
  have 1: "(\<Sum>i<n. (f(k := v)) i) = v + (\<Sum>i\<in>{..<n} - {k}. (f(k := v)) i)"
    using k by (subst sum.remove [of "{..<n}" k]) simp_all
  have 2: "(\<Sum>i<n. f i) = f k + (\<Sum>i\<in>{..<n} - {k}. f i)"
    using k by (subst sum.remove [of "{..<n}" k]) simp_all
  have 3: "(\<Sum>i\<in>{..<n} - {k}. (f(k := v)) i) = (\<Sum>i\<in>{..<n} - {k}. f i)"
    by (rule sum.cong) simp_all
  show ?thesis using 1 2 3 by simp
qed

lemma held_le_escrowed:
  assumes "k < transferCounter r"
  shows "held t (transfers r k) \<le> escrowed r t"
proof -
  have "k \<in> {..<transferCounter r}" using assms by simp
  then show ?thesis
    unfolding escrowed_def
    by (subst sum.remove [of "{..<transferCounter r}" k]) simp_all
qed

lemma escrowed_set_status:
  assumes "k < transferCounter r" and "s \<noteq> PENDING"
  shows "escrowed (r\<lparr>transfers := (transfers r)(k := (transfers r k)\<lparr>status := s\<rparr>)\<rparr>) t
           = escrowed r t - held t (transfers r k)"
proof -
  have "(\<lambda>i. held t (((transfers r)(k := (transfers r k)\<lparr>status := s\<rparr>)) i))
          = (\<lambda>i. held t (transfers r i))(k := 0)"
    using assms(2) by (auto simp add: fun_eq_iff held_def)
  then have "(\<Sum>i<transferCounter r. held t (((transfers r)(k := (transfers r k)\<lparr>status := s\<rparr>)) i))
           = (\<Sum>i<transferCounter r. held t (transfers r i)) - held t (transfers r k) + 0"
    by (simp only: sum_lessThan_upd [OF assms(1)])
  then show ?thesis by (simp add: escrowed_def)
qed

lemma escrowed_new:
  "escrowed (r\<lparr>transferCounter := Suc (transferCounter r),
              transfers := (transfers r)(transferCounter r := T),
              userTransfers := ut\<rparr>) t
     = escrowed r t + held t T"
proof -
  have "(\<Sum>i<transferCounter r. held t (((transfers r)(transferCounter r := T)) i))
          = (\<Sum>i<transferCounter r. held t (transfers r i))"
    by (rule sum.cong) simp_all
  then show ?thesis by (simp add: escrowed_def)
qed

lemma transfer_internal_Inr:
  assumes "transfer_internal e from to amt = Inr e'"
  shows "from \<noteq> 0 \<and> to \<noteq> 0 \<and> amt \<le> balances e from
     \<and> balances e' = ((balances e)(from := balances e from - amt))
                        (to := ((balances e)(from := balances e from - amt)) to + amt)"
  using assms by (auto simp add: transfer_internal_def require_def Let_def split: if_splits)

lemma spendAllowance_Inr:
  assumes "spendAllowance e holder spender amt = Inr e'"
  shows "balances e' = balances e"
  using assms by (auto simp add: spendAllowance_def require_def Let_def split: if_splits)

lemma safeTransferFrom_Inr:
  assumes "safeTransferFrom tk token this from to amt = Inr tk'"
  shows "from \<noteq> 0 \<and> to \<noteq> 0 \<and> amt \<le> balances (tk token) from
     \<and> balances (tk' token) = ((balances (tk token))(from := balances (tk token) from - amt))
                        (to := ((balances (tk token))(from := balances (tk token) from - amt)) to + amt)
     \<and> (\<forall>t. t \<noteq> token \<longrightarrow> tk' t = tk t)"
proof -
  from assms obtain e1 e2 where 1: "spendAllowance (tk token) from this amt = Inr e1"
    and 2: "transfer_internal e1 from to amt = Inr e2" and 3: "tk' = tk(token := e2)"
    by (auto simp add: safeTransferFrom_def bind_def split: sum.splits)
  from transfer_internal_Inr [OF 2] spendAllowance_Inr [OF 1] 3 show ?thesis by simp
qed

lemma safeTransfer_Inr:
  assumes "safeTransfer tk token this to amt = Inr tk'"
  shows "this \<noteq> 0 \<and> to \<noteq> 0 \<and> amt \<le> balances (tk token) this
     \<and> balances (tk' token) = ((balances (tk token))(this := balances (tk token) this - amt))
                        (to := ((balances (tk token))(this := balances (tk token) this - amt)) to + amt)
     \<and> (\<forall>t. t \<noteq> token \<longrightarrow> tk' t = tk t)"
proof -
  from assms obtain e2 where 2: "transfer_internal (tk token) this to amt = Inr e2"
    and 3: "tk' = tk(token := e2)"
    by (auto simp add: safeTransfer_def bind_def split: sum.splits)
  from transfer_internal_Inr [OF 2] 3 show ?thesis by simp
qed

lemma initiateTransfer_tokens:
  assumes "initiateTransfer this now r tk sender token amt recipient origin destination = Inr (i, r', tk')"
    and "sender \<noteq> this"
  shows "sender \<noteq> 0 \<and> balances (tk token) this + amt \<le> balances (tk' token) this
     \<and> (\<forall>t. t \<noteq> token \<longrightarrow> tk' t = tk t)"
proof -
  from assms(1) obtain f tk1 where
    1: "safeTransferFrom tk token this sender this (amt + f) = Inr tk1"
    and 2: "safeTransfer tk1 token this (treasury r) f = Inr tk'"
    by (auto simp add: initiateTransfer_def require_def bind_def add_def Let_def split: if_splits sum.splits)
  from safeTransferFrom_Inr [OF 1] assms(2) have
    s: "sender \<noteq> 0" and b1: "balances (tk1 token) this = balances (tk token) this + (amt + f)"
    and o1: "\<forall>t. t \<noteq> token \<longrightarrow> tk1 t = tk t"
    by auto
  from safeTransfer_Inr [OF 2] have
    b2: "balances (tk' token) this \<ge> balances (tk1 token) this - f"
    and o2: "\<forall>t. t \<noteq> token \<longrightarrow> tk' t = tk1 t"
    by auto
  from s b1 b2 o1 o2 show ?thesis by auto
qed

lemma cancelTransfer_tokens:
  assumes "cancelTransfer this r tk sender i = Inr (r', tk')"
  shows "balances (tk (tokenAddress (transfers r i))) this - tr_amount (transfers r i)
            \<le> balances (tk' (tokenAddress (transfers r i))) this
     \<and> (\<forall>t. t \<noteq> tokenAddress (transfers r i) \<longrightarrow> tk' t = tk t)"
proof -
  from assms have "safeTransfer tk (tokenAddress (transfers r i)) this (tr_sender (transfers r i))
                      (tr_amount (transfers r i)) = Inr tk'"
    by (auto simp add: cancelTransfer_def require_def bind_def Let_def split: if_splits sum.splits)
  from safeTransfer_Inr [OF this] show ?thesis by auto
qed

lemma rm_call_escrow:
  assumes c: "rm_call this (r, tk) (sender, now, c) = Inr (r', tk')"
    and ne: "sender \<noteq> this"
    and inv: "rm_escrow this (r, tk)"
  shows "rm_escrow this (r', tk')"
proof -
  from inv have ri: "rm_inv r"
    and ids: "\<And>j. 1 \<le> j \<Longrightarrow> j < transferCounter r \<Longrightarrow>
            tr_id (transfers r j) = j \<and> tr_sender (transfers r j) \<noteq> 0 \<and> tr_sender (transfers r j) \<noteq> this"
    and esc: "\<And>t. escrowed r t \<le> balances (tk t) this"
    by (simp_all add: rm_escrow_def)
  from rm_call_terminal [OF c ri] have ri': "rm_inv r'" by simp
  show ?thesis
  proof (cases c)
    case (InitiateTransfer token amt recipient origin destination)
    with c obtain k where
      i: "initiateTransfer this now r tk sender token amt recipient origin destination = Inr (k, r', tk')"
      by (auto simp add: bind_def split: sum.splits)
    from initiateTransfer_Inr [OF i] obtain fee0 where
      r': "r' = r\<lparr>transferCounter := transferCounter r + 1,
              transfers := (transfers r)(transferCounter r :=
                 \<lparr>tr_id = transferCounter r, tr_sender = sender, recipientId = recipient,
                  tokenAddress = token, tr_amount = amt, fee = fee0, originCountry = origin,
                  destinationCountry = destination, tr_timestamp = now, status = PENDING\<rparr>),
              userTransfers := (userTransfers r)(sender := userTransfers r sender @ [transferCounter r])\<rparr>"
      by blast
    from initiateTransfer_tokens [OF i ne] have
      s0: "sender \<noteq> 0" and b: "balances (tk token) this + amt \<le> balances (tk' token) this"
      and o: "\<And>t. t \<noteq> token \<Longrightarrow> tk' t = tk t" by simp_all
    have ids': "\<forall>j. 1 \<le> j \<and> j < transferCounter r' \<longrightarrow>
            tr_id (transfers r' j) = j \<and> tr_sender (transfers r' j) \<noteq> 0 \<and> tr_sender (transfers r' j) \<noteq> this"
      using ids s0 ne by (auto simp add: r' less_Suc_eq)
    have e: "\<And>t. escrowed r' t = escrowed r t + (if t = token then amt else 0)"
      by (simp add: r' escrowed_new held_def)
    have "\<forall>t. escrowed r' t \<le> balances (tk' t) this"
    proof
      fix t
      show "escrowed r' t \<le> balances (tk' t) this"
      proof (cases "t = token")
        case True
        with esc [of token] b e [of token] show ?thesis by simp
      next
        case False
        with esc [of t] o [of t] e [of t] show ?thesis by simp
      qed
    qed
    with ri' ids' show ?thesis by (simp add: rm_escrow_def)
  next
    case (CompleteTransfer k)
    with c have "completeTransfer r sender k = Inr r'" and tk': "tk' = tk"
      by (auto simp add: bind_def split: sum.splits)
    from completeTransfer_Inr [OF this(1)] have
      r': "r' = r\<lparr>transfers := (transfers r)(k := (transfers r k)\<lparr>status := COMPLETED\<rparr>)\<rparr>"
      and k: "tr_id (transfers r k) = k" "status (transfers r k) = PENDING" by simp_all
    from rm_inv_existing [OF ri k] ri have kc: "k < transferCounter r" by (auto simp add: rm_inv_def)
    have ids': "\<forall>j. 1 \<le> j \<and> j < transferCounter r' \<longrightarrow>
            tr_id (transfers r' j) = j \<and> tr_sender (transfers r' j) \<noteq> 0 \<and> tr_sender (transfers r' j) \<noteq> this"
      using ids by (auto simp add: r')
    have "\<forall>t. escrowed r' t \<le> balances (tk' t) this"
      using esc by (auto simp add: r' tk' escrowed_set_status [OF kc] intro: le_trans [OF diff_le_self])
    with ri' ids' show ?thesis by (simp add: rm_escrow_def)
  next
    case (CancelTransfer k)
    with c have cc: "cancelTransfer this r tk sender k = Inr (r', tk')" by simp
    from cancelTransfer_Inr [OF cc] have
      r': "r' = r\<lparr>transfers := (transfers r)(k := (transfers r k)\<lparr>status := CANCELLED\<rparr>)\<rparr>"
      and k: "tr_id (transfers r k) = k" "status (transfers r k) = PENDING" by simp_all
    from rm_inv_existing [OF ri k] ri have kc: "k < transferCounter r" by (auto simp add: rm_inv_def)
    let ?tok = "tokenAddress (transfers r k)"
    from cancelTransfer_tokens [OF cc] have
      b: "balances (tk ?tok) this - tr_amount (transfers r k) \<le> balances (tk' ?tok) this"
      and o: "\<And>t. t \<noteq> ?tok \<Longrightarrow> tk' t = tk t" by simp_all
    have ids': "\<forall>j. 1 \<le> j \<and> j < transferCounter r' \<longrightarrow>
            tr_id (transfers r' j) = j \<and> tr_sender (transfers r' j) \<noteq> 0 \<and> tr_sender (transfers r' j) \<noteq> this"
      using ids by (auto simp add: r')
    have e: "\<And>t. escrowed r' t = escrowed r t - held t (transfers r k)"
      by (simp add: r' escrowed_set_status [OF kc])
    have h: "held ?tok (transfers r k) = tr_amount (transfers r k)"
      using k by (simp add: held_def)
    have "\<forall>t. escrowed r' t \<le> balances (tk' t) this"
    proof
      fix t
      show "escrowed r' t \<le> balances (tk' t) this"
      proof (cases "t = ?tok")
        case True
        with esc [of ?tok] b e [of ?tok] h show ?thesis by simp
      next
        case False
        with esc [of t] o [of t] e [of t] show ?thesis by simp
      qed
    qed
    with ri' ids' show ?thesis by (simp add: rm_escrow_def)
  next
    case (RmAddSupportedToken a)
    from rm_admin_Inr [OF _ c, of a] RmAddSupportedToken c inv
    show ?thesis by (auto simp add: rm_escrow_def rm_inv_def escrowed_def bind_def split: sum.splits)
  next
    case (RmRemoveSupportedToken a)
    from rm_admin_Inr [OF _ c, of a] RmRemoveSupportedToken c inv
    show ?thesis by (auto simp add: rm_escrow_def rm_inv_def escrowed_def bind_def split: sum.splits)
  next
    case (UpdateCorridorFee o1 d1 n)
    from rm_admin_Inr [OF _ c, of _ o1 d1 n] UpdateCorridorFee c inv
    show ?thesis by (auto simp add: rm_escrow_def rm_inv_def escrowed_def bind_def split: sum.splits)
  next
    case (UpdateDefaultFee n)
    from rm_admin_Inr [OF _ c, of _ _ _ n] UpdateDefaultFee c inv
    show ?thesis by (auto simp add: rm_escrow_def rm_inv_def escrowed_def bind_def split: sum.splits)
  next
    case (UpdateTransferLimits lo hi)
    from rm_admin_Inr [OF _ c, of _ _ _ _ lo hi] UpdateTransferLimits c inv
    show ?thesis by (auto simp add: rm_escrow_def rm_inv_def escrowed_def bind_def split: sum.splits)
  next
    case (UpdateTreasury a)
    from rm_admin_Inr [OF _ c, of a] UpdateTreasury c inv
    show ?thesis by (auto simp add: rm_escrow_def rm_inv_def escrowed_def bind_def split: sum.splits)
  qed
qed

lemma rm_exec_escrow:
  assumes "rm_escrow this w" and "fst tx \<noteq> this"
  shows "rm_escrow this (rm_exec this w tx)"
proof (cases "rm_call this w tx")
  case (Inl e)
  then show ?thesis using assms by (simp add: rm_exec_def)
next
  case (Inr w')
  obtain r tk where w: "w = (r, tk)" by (cases w)
  obtain sender now c where tx: "tx = (sender, now, c)" by (cases tx)
  obtain r' tk' where w': "w' = (r', tk')" by (cases w')
  from rm_call_escrow [of this r tk sender now c r' tk'] Inr assms
  show ?thesis by (simp add: rm_exec_def w tx w')
qed

lemma rm_run_escrow:
  assumes "rm_escrow this w" and "\<forall>x\<in>set txs. fst x \<noteq> this"
  shows "rm_escrow this (rm_run this w txs)"
  using assms
proof (induction txs arbitrary: w)
  case Nil
  then show ?case by (simp add: rm_run_def)
next
  case (Cons tx txs)
  from Cons.prems have "fst tx \<noteq> this" and rest: "\<forall>x\<in>set txs. fst x \<noteq> this" by simp_all
  from Cons.IH [OF rm_exec_escrow [OF Cons.prems(1) this(1)] rest]
  show ?case by (simp add: rm_run_def)
qed

lemma rm_constructor_escrow:
  assumes "AIFiRemittance_constructor deployer treasury0 = Inr r0"
  shows "rm_escrow this (r0, tk0)"
proof -
  from assms have r0: "transferCounter r0 = 1" "transfers r0 = (\<lambda>_. empty_Transfer)"
    by (auto simp add: AIFiRemittance_constructor_def require_def split: if_splits)
  have "escrowed r0 t = 0" for t
    by (simp add: escrowed_def r0 held_def empty_Transfer_def)
  with rm_constructor_inv [OF assms] r0 show ?thesis
    by (simp add: rm_escrow_def)
qed

subsection \<open>Scenario B, step by step\<close>

lemma scenario_B_configured:
  "\<exists>r0 r1 r2.
     AIFiRemittance_constructor 9 5 = Inr r0
   \<and> rm_addSupportedToken r0 9 7 = Inr r1
   \<and> updateCorridorFee r1 9 ''US'' ''MX'' 80 = Inr r2
   \<and> corridorFees r2 ''US'' ''MX'' = 80 \<and> rm_supportedTokens r2 7
   \<and> minTransferAmount r2 = 10 * 10 ^ 18 \<and> maxTransferAmount r2 = 10000 * 10 ^ 18
   \<and> treasury r2 = 5 \<and> transferCounter r2 = 1 \<and> rm_owner r2 = 9
   \<and> transfers r2 = (\<lambda>_. empty_Transfer)"
proof -
  define r0 where "r0 = \<lparr>rm_owner = 9, rm_supportedTokens = (\<lambda>_. False), corridorFees = (\<lambda>_ _. 0),
            defaultFee = 50, minTransferAmount = 10 * 10 ^ 18, maxTransferAmount = 10000 * 10 ^ 18,
            transferCounter = 1, transfers = (\<lambda>_. empty_Transfer), userTransfers = (\<lambda>_. []),
            treasury = 5\<rparr>"
  define r1 where "r1 = r0\<lparr>rm_supportedTokens := (rm_supportedTokens r0)(7 := True)\<rparr>"
  define r2 where "r2 = r1\<lparr>corridorFees := (corridorFees r1)(''US'' := (corridorFees r1 ''US'')(''MX'' := 80))\<rparr>"
  have 0: "AIFiRemittance_constructor 9 5 = Inr r0"
    by (simp add: AIFiRemittance_constructor_def require_def r0_def)
  have 1: "rm_addSupportedToken r0 9 7 = Inr r1"
    by (simp add: rm_addSupportedToken_def onlyOwner_def require_def r0_def r1_def)
  have 2: "updateCorridorFee r1 9 ''US'' ''MX'' 80 = Inr r2"
    by (simp add: updateCorridorFee_def onlyOwner_def require_def r0_def r1_def r2_def)
  have 3: "corridorFees r2 ''US'' ''MX'' = 80" "rm_supportedTokens r2 7"
     "minTransferAmount r2 = 10 * 10 ^ 18" "maxTransferAmount r2 = 10000 * 10 ^ 18"
     "treasury r2 = 5" "transferCounter r2 = 1" "rm_owner r2 = 9" "transfers r2 = (\<lambda>_. empty_Transfer)"
    by (simp_all add: r2_def r1_def r0_def)
  show ?thesis using 0 1 2 3 by blast
qed

lemma scenario_B_initiated:
  "\<exists>r0 r1 r2 r3 tk3.
     AIFiRemittance_constructor 9 5 = Inr r0
   \<and> rm_addSupportedToken r0 9 7 = Inr r1
   \<and> updateCorridorFee r1 9 ''US'' ''MX'' 80 = Inr r2
   \<and> initiateTransfer 200 1000 r2 scenB_tokens 1 7 (1000 * 10 ^ 18) ''bob'' ''US'' ''MX'' = Inr (1, r3, tk3)
   \<and> transfers r3 1 = \<lparr>tr_id = 1, tr_sender = 1, recipientId = ''bob'', tokenAddress = 7,
         tr_amount = 1000 * 10 ^ 18, fee = 8 * 10 ^ 18, originCountry = ''US'',
         destinationCountry = ''MX'', tr_timestamp = 1000, status = PENDING\<rparr>
   \<and> rm_owner r3 = 9 \<and> treasury r3 = 5 \<and> transferCounter r3 = 2
   \<and> balances (tk3 7) = (\<lambda>_. 0)(1 := 992 * 10 ^ 18, 200 := 1000 * 10 ^ 18, 5 := 8 * 10 ^ 18)"
proof -
  from scenario_B_configured obtain r0 r1 r2 where
    s: "AIFiRemittance_constructor 9 5 = Inr r0" "rm_addSupportedToken r0 9 7 = Inr r1"
       "updateCorridorFee r1 9 ''US'' ''MX'' 80 = Inr r2"
    and r2: "corridorFees r2 ''US'' ''MX'' = 80" "rm_supportedTokens r2 7"
     "minTransferAmount r2 = 10 * 10 ^ 18" "maxTransferAmount r2 = 10000 * 10 ^ 18"
     "treasury r2 = 5" "transferCounter r2 = 1" "rm_owner r2 = 9"
    by blast
  have f: "calculateFee r2 ''US'' ''MX'' (1000 * 10 ^ 18) = Inr (8 * 10 ^ 18)"
    by (simp add: calculateFee_eq r2 MAX_UINT256_def)
  have b: "balances (scenB_tokens 7) = (\<lambda>_. 0)(1 := 2000 * 10 ^ 18)"
     "allowances (scenB_tokens 7) 1 200 = 2000 * 10 ^ 18"
    by (simp_all add: scenB_tokens_def)
  from initiateTransfer_ok [of r2 7 "1000 * 10 ^ 18" "''bob''" "''US''" "''MX''" "8 * 10 ^ 18"
         scenB_tokens 1 200 1000] f
  obtain tk3 where i: "initiateTransfer 200 1000 r2 scenB_tokens 1 7 (1000 * 10 ^ 18) ''bob'' ''US'' ''MX''
         = Inr (1,
                r2\<lparr>transferCounter := Suc 1,
                  transfers := (transfers r2)(1 :=
                    \<lparr>tr_id = 1, tr_sender = 1, recipientId = ''bob'',
                     tokenAddress = 7, tr_amount = 1000 * 10 ^ 18, fee = 8 * 10 ^ 18, originCountry = ''US'',
                     destinationCountry = ''MX'', tr_timestamp = 1000, status = PENDING\<rparr>),
                  userTransfers := (userTransfers r2)(1 := userTransfers r2 1 @ [1])\<rparr>,
                tk3)"
    and b3: "balances (tk3 7) = (balances (scenB_tokens 7))
          (1 := balances (scenB_tokens 7) 1 - (1000 * 10 ^ 18 + 8 * 10 ^ 18),
           200 := balances (scenB_tokens 7) 200 + 1000 * 10 ^ 18,
           5 := balances (scenB_tokens 7) 5 + 8 * 10 ^ 18)"
    by (auto simp add: r2 b balanceOf_def MAX_UINT256_def)
  have "balances (tk3 7) = (\<lambda>_. 0)(1 := 992 * 10 ^ 18, 200 := 1000 * 10 ^ 18, 5 := 8 * 10 ^ 18)"
    by (simp add: b3 b)
  then show ?thesis using s i r2 by auto
qed

lemma scenario_B_cancelled:
  "\<exists>r0 r tk.
     AIFiRemittance_constructor 9 5 = Inr r0
   \<and> rm_run 200 (r0, scenB_tokens) scenB_cancel_txs = (r, tk)
   \<and> status (transfers r 1) = CANCELLED \<and> rm_owner r = 9"
proof -
  from scenario_B_initiated obtain r0 r1 r2 r3 tk3 where
    s: "AIFiRemittance_constructor 9 5 = Inr r0" "rm_addSupportedToken r0 9 7 = Inr r1"
       "updateCorridorFee r1 9 ''US'' ''MX'' 80 = Inr r2"
       "initiateTransfer 200 1000 r2 scenB_tokens 1 7 (1000 * 10 ^ 18) ''bob'' ''US'' ''MX'' = Inr (1, r3, tk3)"
    and t: "transfers r3 1 = \<lparr>tr_id = 1, tr_sender = 1, recipientId = ''bob'', tokenAddress = 7,
         tr_amount = 1000 * 10 ^ 18, fee = 8 * 10 ^ 18, originCountry = ''US'',
         destinationCountry = ''MX'', tr_timestamp = 1000, status = PENDING\<rparr>"
    and o: "rm_owner r3 = 9"
    and b: "balances (tk3 7) = (\<lambda>_. 0)(1 := 992 * 10 ^ 18, 200 := 1000 * 10 ^ 18, 5 := 8 * 10 ^ 18)"
    by blast
  have h: "tr_id (transfers r3 1) = 1" "status (transfers r3 1) = PENDING"
     "1 = tr_sender (transfers r3 1) \<or> 1 = rm_owner r3"
     "tr_sender (transfers r3 1) \<noteq> 0" "(200 :: address) \<noteq> 0" "tr_sender (transfers r3 1) \<noteq> 200"
     "tr_amount (transfers r3 1) \<le> balances (tk3 (tokenAddress (transfers r3 1))) 200"
    using t b by simp_all
  define r4 where "r4 = r3\<lparr>transfers := (transfers r3)(1 := (transfers r3 1)\<lparr>status := CANCELLED\<rparr>)\<rparr>"
  from cancelTransfer_ok [of r3 1 1 200 tk3] h
  obtain tk4 where c: "cancelTransfer 200 r3 tk3 1 1 = Inr (r4, tk4)"
    unfolding r4_def by blast
  note r4 = r4_def
  have "rm_run 200 (r0, scenB_tokens) scenB_cancel_txs = (r4, tk4)"
    using s c by (simp add: rm_run_def scenB_cancel_txs_def rm_exec_def bind_def)
  moreover have "status (transfers r4 1) = CANCELLED" "rm_owner r4 = 9"
    by (simp_all add: r4 o)
  ultimately show ?thesis using s(1) by blast
qed

lemma scenario_B_initiated_run:
  "\<exists>r0 r3 tk3.
     AIFiRemittance_constructor 9 5 = Inr r0
   \<and> rm_run 200 (r0, scenB_tokens) scenB_initiate_txs = (r3, tk3)
   \<and> transfers r3 1 = \<lparr>tr_id = 1, tr_sender = 1, recipientId = ''bob'', tokenAddress = 7,
         tr_amount = 1000 * 10 ^ 18, fee = 8 * 10 ^ 18, originCountry = ''US'',
         destinationCountry = ''MX'', tr_timestamp = 1000, status = PENDING\<rparr>
   \<and> rm_owner r3 = 9 \<and> transferCounter r3 = 2
   \<and> balances (tk3 7) = (\<lambda>_. 0)(1 := 992 * 10 ^ 18, 200 := 1000 * 10 ^ 18, 5 := 8 * 10 ^ 18)"
proof -
  from scenario_B_initiated obtain r0 r1 r2 r3 tk3 where
    s: "AIFiRemittance_constructor 9 5 = Inr r0" "rm_addSupportedToken r0 9 7 = Inr r1"
       "updateCorridorFee r1 9 ''US'' ''MX'' 80 = Inr r2"
       "initiateTransfer 200 1000 r2 scenB_tokens 1 7 (1000 * 10 ^ 18) ''bob'' ''US'' ''MX'' = Inr (1, r3, tk3)"
    and t: "transfers r3 1 = \<lparr>tr_id = 1, tr_sender = 1, recipientId = ''bob'', tokenAddress = 7,
         tr_amount = 1000 * 10 ^ 18, fee = 8 * 10 ^ 18, originCountry = ''US'',
         destinationCountry = ''MX'', tr_timestamp = 1000, status = PENDING\<rparr>"
       "rm_owner r3 = 9" "transferCounter r3 = 2"
       "balances (tk3 7) = (\<lambda>_. 0)(1 := 992 * 10 ^ 18, 200 := 1000 * 10 ^ 18, 5 := 8 * 10 ^ 18)"
    by blast
  have "rm_run 200 (r0, scenB_tokens) scenB_initiate_txs = (r3, tk3)"
    using s by (simp add: rm_run_def scenB_initiate_txs_def rm_exec_def bind_def)
  then show ?thesis using s(1) t by blast
qed

subsection \<open>The claims about transfers\<close>

text \<open>
  Claim C5. In a state that the contract reaches from its constructor, a transfer whose
  status is \<open>COMPLETED\<close> or \<open>CANCELLED\<close> stays so: \<open>completeTransfer\<close> on it fails for
  every caller (for the owner with \<open>Transfer not pending\<close>), \<open>cancelTransfer\<close> on it fails
  for every caller with \<open>Transfer not pending\<close>, a \<open>StateError\<close>, and after any further
  sequence of transactions to the contract its status is the same.
\<close>

theorem transfer_terminality:
  assumes "AIFiRemittance_constructor deployer treasury0 = Inr r0"
    and "rm_run this (r0, tk0) txs = (r, tk)"
    and "status (transfers r i) = COMPLETED \<or> status (transfers r i) = CANCELLED"
  shows "(\<exists>e. completeTransfer r sender i = Inl e)
       \<and> cancelTransfer this r tk sender i = Inl (Revert ''Transfer not pending'')
       \<and> completeTransfer r (rm_owner r) i = Inl (Revert ''Transfer not pending'')
       \<and> error_kind_of (Revert ''Transfer not pending'') = StateError
       \<and> status (transfers (after r (completeTransfer r sender i)) i) = status (transfers r i)
       \<and> status (transfers (fst (after (r, tk) (cancelTransfer this r tk sender i))) i) = status (transfers r i)
       \<and> status (transfers (fst (rm_run this (r, tk) txs')) i) = status (transfers r i)"
proof -
  from assms(3) have t: "status (transfers r i) \<noteq> PENDING" by auto
  from rm_run_terminal [of "(r0, tk0)" this txs] rm_constructor_inv [OF assms(1)] assms(2)
  have inv: "rm_inv r" by simp
  with t have id: "tr_id (transfers r i) = i" by (simp add: rm_inv_def)
  have k: "error_kind_of (Revert ''Transfer not pending'') = StateError"
    by (simp add: error_kind_of_def)
  from rm_run_terminal [of "(r, tk)" this txs' i] inv t
  have "status (transfers (fst (rm_run this (r, tk) txs')) i) = status (transfers r i)" by simp
  then show ?thesis
    using t id k by (simp add: terminal_calls after_def)
qed

theorem transfer_terminality_witness:
  "\<exists>r0 r tk.
     AIFiRemittance_constructor 9 5 = Inr r0
   \<and> rm_run 200 (r0, scenB_tokens) scenB_cancel_txs = (r, tk)
   \<and> status (transfers r 1) = CANCELLED
   \<and> cancelTransfer 200 r tk 1 1 = Inl (Revert ''Transfer not pending'')
   \<and> completeTransfer r 9 1 = Inl (Revert ''Transfer not pending'')
   \<and> status (transfers (fst (rm_run 200 (r, tk) [(9, 3000, CompleteTransfer 1), (1, 3000, CancelTransfer 1)])) 1)
        = CANCELLED"
proof -
  from scenario_B_cancelled obtain r0 r tk where
    c: "AIFiRemittance_constructor 9 5 = Inr r0"
    and run: "rm_run 200 (r0, scenB_tokens) scenB_cancel_txs = (r, tk)"
    and s: "status (transfers r 1) = CANCELLED" and o: "rm_owner r = 9"
    by blast
  from s have h: "status (transfers r 1) = COMPLETED \<or> status (transfers r 1) = CANCELLED" by simp
  from transfer_terminality [OF c run h, of 1 "[(9, 3000, CompleteTransfer 1), (1, 3000, CancelTransfer 1)]"]
  show ?thesis using c run s o by auto
qed

text \<open>
  Claim C6. In a state that the contract reaches from its constructor, take a transfer that
  \<open>initiateTransfer\<close> has created (its id is from 1 up to the counter) and that is
  \<open>PENDING\<close>. \<open>cancelTransfer\<close> on it, called by its sender or by the owner, returns: the
  transfer is \<open>CANCELLED\<close> and otherwise as it was, the sender's token balance has grown by
  exactly the principal \<open>amount\<close> and the contract's has shrunk by it, every other balance
  (the treasury's, which holds the fee) is unchanged, and \<open>cancelTransfer\<close> on the same id,
  by any caller, now reverts with \<open>Transfer not pending\<close>, a \<open>StateError\<close>.
\<close>

theorem cancelTransfer_refunds_principal:
  assumes "AIFiRemittance_constructor deployer treasury0 = Inr r0"
    and "rm_run this (r0, tk0) txs = (r, tk)"
    and "\<forall>x\<in>set txs. fst x \<noteq> this" and "this \<noteq> 0"
    and "1 \<le> i" and "i < transferCounter r"
    and "status (transfers r i) = PENDING"
    and "sender = tr_sender (transfers r i) \<or> sender = rm_owner r"
  shows "\<exists>r' tk'.
       cancelTransfer this r tk sender i = Inr (r', tk')
     \<and> transfers r' i = (transfers r i)\<lparr>status := CANCELLED\<rparr>
     \<and> balanceOf tk' (tokenAddress (transfers r i)) (tr_sender (transfers r i))
         = balanceOf tk (tokenAddress (transfers r i)) (tr_sender (transfers r i)) + tr_amount (transfers r i)
     \<and> balanceOf tk' (tokenAddress (transfers r i)) this
         = balanceOf tk (tokenAddress (transfers r i)) this - tr_amount (transfers r i)
     \<and> (\<forall>a. a \<noteq> tr_sender (transfers r i) \<and> a \<noteq> this
           \<longrightarrow> balanceOf tk' (tokenAddress (transfers r i)) a = balanceOf tk (tokenAddress (transfers r i)) a)
     \<and> cancelTransfer this r' tk' sender' i = Inl (Revert ''Transfer not pending'')
     \<and> error_kind_of (Revert ''Transfer not pending'') = StateError"
proof -
  from rm_run_escrow [OF rm_constructor_escrow [OF assms(1)] assms(3), of tk0] assms(2)
  have e: "rm_escrow this (r, tk)" by simp
  with assms(5,6) have id: "tr_id (transfers r i) = i"
    and s0: "tr_sender (transfers r i) \<noteq> 0" and st: "tr_sender (transfers r i) \<noteq> this"
    by (simp_all add: rm_escrow_def)
  have "tr_amount (transfers r i) = held (tokenAddress (transfers r i)) (transfers r i)"
    using assms(7) by (simp add: held_def)
  also have "\<dots> \<le> escrowed r (tokenAddress (transfers r i))"
    by (rule held_le_escrowed [OF assms(6)])
  also have "\<dots> \<le> balances (tk (tokenAddress (transfers r i))) this"
    using e by (simp add: rm_escrow_def)
  finally have "tr_amount (transfers r i) \<le> balanceOf tk (tokenAddress (transfers r i)) this"
    by (simp add: balanceOf_def)
  from cancelTransfer_effects [OF id assms(7,8) s0 assms(4) st this]
  show ?thesis .
qed

theorem cancelTransfer_refunds_principal_witness:
  "\<exists>r0 r3 tk3 r4 tk4.
     AIFiRemittance_constructor 9 5 = Inr r0
   \<and> rm_run 200 (r0, scenB_tokens) scenB_initiate_txs = (r3, tk3)
   \<and> transfers r3 1 = \<lparr>tr_id = 1, tr_sender = 1, recipientId = ''bob'', tokenAddress = 7,
         tr_amount = 1000 * 10 ^ 18, fee = 8 * 10 ^ 18, originCountry = ''US'',
         destinationCountry = ''MX'', tr_timestamp = 1000, status = PENDING\<rparr>
   \<and> balanceOf tk3 7 1 = 992 * 10 ^ 18 \<and> balanceOf tk3 7 200 = 1000 * 10 ^ 18
   \<and> balanceOf tk3 7 5 = 8 * 10 ^ 18
   \<and> cancelTransfer 200 r3 tk3 1 1 = Inr (r4, tk4)
   \<and> status (transfers r4 1) = CANCELLED
   \<and> balanceOf tk4 7 1 = 1992 * 10 ^ 18
   \<and> balanceOf tk4 7 200 = 0
   \<and> balanceOf tk4 7 5 = 8 * 10 ^ 18
   \<and> cancelTransfer 200 r4 tk4 1 1 = Inl (Revert ''Transfer not pending'')
   \<and> cancelTransfer 200 r4 tk4 9 1 = Inl (Revert ''Transfer not pending'')"
proof -
  from scenario_B_initiated_run obtain r0 r3 tk3 where
    c: "AIFiRemittance_constructor 9 5 = Inr r0"
    and run: "rm_run 200 (r0, scenB_tokens) scenB_initiate_txs = (r3, tk3)"
    and t: "transfers r3 1 = \<lparr>tr_id = 1, tr_sender = 1, recipientId = ''bob'', tokenAddress = 7,
         tr_amount = 1000 * 10 ^ 18, fee = 8 * 10 ^ 18, originCountry = ''US'',
         destinationCountry = ''MX'', tr_timestamp = 1000, status = PENDING\<rparr>"
    and n: "transferCounter r3 = 2"
    and b: "balances (tk3 7) = (\<lambda>_. 0)(1 := 992 * 10 ^ 18, 200 := 1000 * 10 ^ 18, 5 := 8 * 10 ^ 18)"
    by blast
  have b3: "balanceOf tk3 7 1 = 992 * 10 ^ 18" "balanceOf tk3 7 200 = 1000 * 10 ^ 18"
     "balanceOf tk3 7 5 = 8 * 10 ^ 18"
    by (simp_all add: balanceOf_def b)
  have t1: "transfers r3 (Suc 0) = \<lparr>tr_id = 1, tr_sender = 1, recipientId = ''bob'', tokenAddress = 7,
         tr_amount = 1000 * 10 ^ 18, fee = 8 * 10 ^ 18, originCountry = ''US'',
         destinationCountry = ''MX'', tr_timestamp = 1000, status = PENDING\<rparr>"
    using t by simp
  have h: "\<forall>x\<in>set scenB_initiate_txs. fst x \<noteq> 200" "(200 :: address) \<noteq> 0"
     "(1::nat) \<le> 1" "1 < transferCounter r3" "status (transfers r3 1) = PENDING"
     "1 = tr_sender (transfers r3 1) \<or> 1 = rm_owner r3"
    by (simp_all add: scenB_initiate_txs_def n t1)
  from cancelTransfer_refunds_principal [OF c run h, of 1]
  obtain r4 tk4 where cc: "cancelTransfer 200 r3 tk3 1 1 = Inr (r4, tk4)"
    and 1: "status (transfers r4 1) = CANCELLED"
       "balanceOf tk4 7 1 = 1992 * 10 ^ 18" "balanceOf tk4 7 200 = 0" "balanceOf tk4 7 5 = 8 * 10 ^ 18"
       "cancelTransfer 200 r4 tk4 1 1 = Inl (Revert ''Transfer not pending'')"
    by (auto simp add: t1 b3)
  from cancelTransfer_refunds_principal [OF c run h, of 9] cc
  have 2: "cancelTransfer 200 r4 tk4 9 1 = Inl (Revert ''Transfer not pending'')"
    by (auto simp add: t1 b3)
  show ?thesis using c run t b3 cc 1 2 by blast
qed

text \<open>
  Claim C7. With 80 basis points stored for the corridor US to MX, \<open>initiateTransfer\<close> of
  \<open>1000 * u\<close> within the limits (\<open>u\<close> is the unit: 1, or \<open>10^18\<close> for a token of 18
  decimals), by a sender who holds and has approved \<open>1008 * u\<close>: the fee is \<open>8 * u\<close>, the
  transfer is recorded under the next id as \<open>PENDING\<close> with that amount and fee, the sender
  is \<open>1008 * u\<close> poorer, the treasury \<open>8 * u\<close> richer at once, and \<open>1000 * u\<close> stay with
  the contract.
\<close>

theorem initiateTransfer_80_bps:
  assumes "corridorFees r ''US'' ''MX'' = 80"
    and "rm_supportedTokens r token"
    and "minTransferAmount r \<le> 1000 * u" and "1000 * u \<le> maxTransferAmount r"
    and "recipient \<noteq> []"
    and "1008 * u \<le> balanceOf tk token sender"
    and "1008 * u \<le> allowances (tk token) sender this"
    and "sender \<noteq> 0" and "this \<noteq> 0" and "treasury r \<noteq> 0"
    and "sender \<noteq> this" and "treasury r \<noteq> this" and "treasury r \<noteq> sender"
    and "transferCounter r < MAX_UINT256" and "80000 * u \<le> MAX_UINT256"
  shows "\<exists>r' tk'.
       initiateTransfer this now r tk sender token (1000 * u) recipient ''US'' ''MX''
         = Inr (transferCounter r, r', tk')
     \<and> calculateFee r ''US'' ''MX'' (1000 * u) = Inr (8 * u)
     \<and> transfers r' (transferCounter r) =
          \<lparr>tr_id = transferCounter r, tr_sender = sender, recipientId = recipient,
           tokenAddress = token, tr_amount = 1000 * u, fee = 8 * u, originCountry = ''US'',
           destinationCountry = ''MX'', tr_timestamp = now, status = PENDING\<rparr>
     \<and> balanceOf tk' token sender = balanceOf tk token sender - 1008 * u
     \<and> balanceOf tk' token this = balanceOf tk token this + 1000 * u
     \<and> balanceOf tk' token (treasury r) = balanceOf tk token (treasury r) + 8 * u"
proof -
  have f: "calculateFee r ''US'' ''MX'' (1000 * u) = Inr (8 * u)"
    using assms(1,15) by (simp add: calculateFee_eq fee_80_bps)
  have s: "1000 * u + 8 * u = 1008 * u" by simp
  from initiateTransfer_ok [of r token "1000 * u" recipient "''US''" "''MX''" "8 * u" tk sender this now]
       assms(2-15) f
  obtain tk' where i: "initiateTransfer this now r tk sender token (1000 * u) recipient ''US'' ''MX''
         = Inr (transferCounter r,
                r\<lparr>transferCounter := Suc (transferCounter r),
                  transfers := (transfers r)(transferCounter r :=
                    \<lparr>tr_id = transferCounter r, tr_sender = sender, recipientId = recipient,
                     tokenAddress = token, tr_amount = 1000 * u, fee = 8 * u, originCountry = ''US'',
                     destinationCountry = ''MX'', tr_timestamp = now, status = PENDING\<rparr>),
                  userTransfers := (userTransfers r)(sender := userTransfers r sender @ [transferCounter r])\<rparr>,
                tk')"
    and b: "balances (tk' token) = (balances (tk token))
          (sender := balances (tk token) sender - (1000 * u + 8 * u),
           this := balances (tk token) this + 1000 * u,
           treasury r := balances (tk token) (treasury r) + 8 * u)"
    by (auto simp add: s)
  have "balanceOf tk' token sender = balanceOf tk token sender - 1008 * u"
       "balanceOf tk' token this = balanceOf tk token this + 1000 * u"
       "balanceOf tk' token (treasury r) = balanceOf tk token (treasury r) + 8 * u"
    using assms(11,12,13) by (simp_all add: balanceOf_def b)
  then show ?thesis using i f by auto
qed

theorem initiateTransfer_80_bps_witness:
  "\<exists>r0 r1 r2 r3 tk3.
     AIFiRemittance_constructor 9 5 = Inr r0
   \<and> rm_addSupportedToken r0 9 7 = Inr r1
   \<and> updateCorridorFee r1 9 ''US'' ''MX'' 80 = Inr r2
   \<and> initiateTransfer 200 1000 r2 scenB_tokens 1 7 (1000 * 10 ^ 18) ''bob'' ''US'' ''MX'' = Inr (1, r3, tk3)
   \<and> calculateFee r2 ''US'' ''MX'' (1000 * 10 ^ 18) = Inr (8 * 10 ^ 18)
   \<and> fee (transfers r3 1) = 8 * 10 ^ 18
   \<and> status (transfers r3 1) = PENDING
   \<and> balanceOf scenB_tokens 7 1 = 2000 * 10 ^ 18
   \<and> balanceOf tk3 7 1 = 992 * 10 ^ 18
   \<and> balanceOf tk3 7 200 = 1000 * 10 ^ 18
   \<and> balanceOf tk3 7 5 = 8 * 10 ^ 18"
proof -
  from scenario_B_configured obtain r0 r1 r2 where
    s: "AIFiRemittance_constructor 9 5 = Inr r0" "rm_addSupportedToken r0 9 7 = Inr r1"
       "updateCorridorFee r1 9 ''US'' ''MX'' 80 = Inr r2"
    and r2: "corridorFees r2 ''US'' ''MX'' = 80" "rm_supportedTokens r2 7"
     "minTransferAmount r2 = 10 * 10 ^ 18" "maxTransferAmount r2 = 10000 * 10 ^ 18"
     "treasury r2 = 5" "transferCounter r2 = 1"
    by blast
  have b: "balanceOf scenB_tokens 7 1 = 2000 * 10 ^ 18" "balanceOf scenB_tokens 7 200 = 0"
     "balanceOf scenB_tokens 7 5 = 0" "allowances (scenB_tokens 7) 1 200 = 2000 * 10 ^ 18"
    by (simp_all add: scenB_tokens_def balanceOf_def)
  from initiateTransfer_80_bps [of r2 7 "10 ^ 18" "''bob''" scenB_tokens 1 200 1000]
  obtain r3 tk3 where
    "initiateTransfer 200 1000 r2 scenB_tokens 1 7 (1000 * 10 ^ 18) ''bob'' ''US'' ''MX'' = Inr (1, r3, tk3)"
    "calculateFee r2 ''US'' ''MX'' (1000 * 10 ^ 18) = Inr (8 * 10 ^ 18)"
    "fee (transfers r3 1) = 8 * 10 ^ 18" "status (transfers r3 1) = PENDING"
    "balanceOf tk3 7 1 = 992 * 10 ^ 18" "balanceOf tk3 7 200 = 1000 * 10 ^ 18"
    "balanceOf tk3 7 5 = 8 * 10 ^ 18"
    by (auto simp add: r2 b MAX_UINT256_def)
  then show ?thesis using s b(1) by blast
qed

end
